theory Spec2Isabelle
  imports Complex_Main
begin

section \<open>Faults, strings and the group classifier\<close>

text \<open>
  The collision database of \<^verbatim>\<open>src/transport/CollisionDBNew.cpp\<close> is embedded as
  pure functions on an explicit database state. Every way the C++ leaves the normal
  control flow is a value of type \<open>fault\<close>: a read outside a string or a vector, the
  exception \<^verbatim>\<open>std::out_of_range\<close> of \<^verbatim>\<open>substr\<close>, a failed \<^verbatim>\<open>assert\<close>, a
  conversion of a \<^verbatim>\<open>double\<close> to \<^verbatim>\<open>int\<close> that does not fit, the call
  \<^verbatim>\<open>exit(1)\<close> together with the lines written to \<^verbatim>\<open>cout\<close> before it, a failed
  \<^verbatim>\<open>parseCheck\<close> with its message, and an elementwise array operation on arrays of
  different sizes.
\<close>

datatype fault =
    OutOfBounds
  | OutOfRange
  | AssertionFailed
  | UndefinedConversion
  | Exit int "string list"
  | ParseError string
  | SizeMismatch

definition fault_bind :: "fault + 'a \<Rightarrow> ('a \<Rightarrow> fault + 'b) \<Rightarrow> fault + 'b" where
  "fault_bind r f = (case r of Inl e \<Rightarrow> Inl e | Inr v \<Rightarrow> f v)"

text \<open>
  The enumeration \<^verbatim>\<open>GroupType\<close> is declared in the header \<^verbatim>\<open>CollisionDBNew.h\<close>.
  The function \<open>group_rank\<close> gives the enumerators' values, which the comparison
  \<^verbatim>\<open>type < II\<close> of \<^verbatim>\<open>group\<close> reads.
\<close>

datatype GroupType = EE | EI | II | IJ | BAD_TYPE

text \<open>
  Modelled from the spec: the declaration of the enumeration is not part of the source
  file; the order \<open>EE < EI < II < IJ < BAD_TYPE\<close> is the one under which
  \<^verbatim>\<open>type < II\<close> selects the electron temperature for \<open>EE\<close> and \<open>EI\<close> and the heavy
  temperature for \<open>II\<close> and \<open>IJ\<close>, as section 4.3 of the specification says.
\<close>

fun group_rank :: "GroupType \<Rightarrow> nat" where
  "group_rank EE = 0"
| "group_rank EI = 1"
| "group_rank II = 2"
| "group_rank IJ = 3"
| "group_rank BAD_TYPE = 4"

text \<open>
  \<^verbatim>\<open>name[i]\<close> on a \<^verbatim>\<open>std::string\<close>: the character at position \<open>i\<close> when
  \<open>0 \<le> i < size\<close>, the terminating zero character at \<open>i = size\<close>, and undefined
  behaviour (a read outside the buffer) anywhere else. The index arrives as an
  \<^verbatim>\<open>int\<close>; a negative one is converted to a huge unsigned position, so it is outside.
\<close>

definition string_at :: "string \<Rightarrow> int \<Rightarrow> fault + char" where
  "string_at s i =
     (if 0 \<le> i \<and> i < int (length s) then Inr (s ! nat i)
      else if i = int (length s) then Inr (CHR 0x00)
      else Inl OutOfBounds)"

text \<open>
  \<^verbatim>\<open>name.length() - 2\<close> is computed in \<^verbatim>\<open>size_t\<close>, here 64 bits wide: below two
  characters the subtraction wraps around.
\<close>

definition length_minus_2 :: "string \<Rightarrow> nat" where
  "length_minus_2 s = (if 2 \<le> length s then length s - 2 else 2 ^ 64 + length s - 2)"

text \<open>
  \<^verbatim>\<open>s.substr(pos, n)\<close>: throws \<^verbatim>\<open>std::out_of_range\<close> when \<open>pos > size\<close>, and
  otherwise returns at most \<open>n\<close> characters from position \<open>pos\<close>. The one-argument
  form \<^verbatim>\<open>s.substr(pos)\<close> takes them all.
\<close>

definition substr :: "string \<Rightarrow> nat \<Rightarrow> nat \<Rightarrow> fault + string" where
  "substr s pos n = (if length s < pos then Inl OutOfRange else Inr (take n (drop pos s)))"

definition substr_from :: "string \<Rightarrow> nat \<Rightarrow> fault + string" where
  "substr_from s pos = (if length s < pos then Inl OutOfRange else Inr (drop pos s))"

text \<open>
  \<^verbatim>\<open>CollisionDBNew::groupType\<close> (lines 107--119). The character \<^verbatim>\<open>name[len-2]\<close> is
  read first, then \<^verbatim>\<open>name[len-1]\<close> inside the branch taken.
\<close>

definition groupType :: "string \<Rightarrow> fault + GroupType" where
  "groupType name =
     (let len = int (length name) in
      fault_bind (string_at name (len - 2)) (\<lambda>c.
        if c = CHR ''e'' then
          fault_bind (string_at name (len - 1)) (\<lambda>d.
            if d = CHR ''e'' then Inr EE
            else if d = CHR ''i'' then Inr EI
            else Inr BAD_TYPE)
        else if c = CHR ''i'' then
          fault_bind (string_at name (len - 1)) (\<lambda>d.
            if d = CHR ''i'' then Inr II
            else if d = CHR ''j'' then Inr IJ
            else Inr BAD_TYPE)
        else Inr BAD_TYPE))"

text \<open>What the classifier's table says about the last two characters \<open>c\<close>, \<open>d\<close>.\<close>

definition suffix_type :: "char \<Rightarrow> char \<Rightarrow> GroupType" where
  "suffix_type c d =
     (if c = CHR ''e'' \<and> d = CHR ''e'' then EE
      else if c = CHR ''e'' \<and> d = CHR ''i'' then EI
      else if c = CHR ''i'' \<and> d = CHR ''i'' then II
      else if c = CHR ''i'' \<and> d = CHR ''j'' then IJ
      else BAD_TYPE)"

section \<open>The thermodynamic state and the configuration\<close>

text \<open>
  The class \<^verbatim>\<open>Thermodynamics\<close> is a collaborator that the database reads through
  the reference \<^verbatim>\<open>m_thermo\<close>. Its state is a record that every operation receives:
  the species list, whether electrons are present, the molar mass by species index
  (\<^verbatim>\<open>speciesMw(i)\<close>) and the two temperatures \<^verbatim>\<open>T()\<close> and \<^verbatim>\<open>Te()\<close>. The
  species type is a parameter. A finite \<^verbatim>\<open>double\<close> is the real number it
  denotes. The check of the table data rounds the result of each operation; the
  factors of the transport quantities are computed without rounding.
\<close>

record 'sp Thermodynamics =
  species :: "'sp list"
  hasElectrons :: bool
  speciesMw :: "nat \<Rightarrow> real"
  thermo_T :: real
  thermo_Te :: real

definition nSpecies :: "'sp Thermodynamics \<Rightarrow> nat" where
  "nSpecies th = length (species th)"

text \<open>The expression \<^verbatim>\<open>hasElectrons() ? 1 : 0\<close>.\<close>

definition nElectrons :: "'sp Thermodynamics \<Rightarrow> nat" where
  "nElectrons th = (if hasElectrons th then 1 else 0)"

text \<open>
  Modelled from the spec: \<^verbatim>\<open>Thermodynamics::nHeavy\<close> is not part of the source file;
  section 4.1 of the specification gives \<open>nHeavy = nSpecies - e\<close>, with \<open>e = 1\<close> when
  electrons are present and \<open>e = 0\<close> otherwise.
\<close>

definition nHeavy :: "'sp Thermodynamics \<Rightarrow> nat" where
  "nHeavy th = nSpecies th - nElectrons th"

text \<open>
  The attributes of the root element of the database file, each one optional.
  Modelled from the spec: \<^verbatim>\<open>XmlElement::getAttribute(name, value, default)\<close> and
  \<^verbatim>\<open>XmlElement::parseCheck(test, message)\<close> are not part of the source file; by
  sections 6 and 7 of the specification an absent attribute takes the default, and a
  violated check aborts the construction with its message.
\<close>

record RootAttributes =
  attr_tabulate :: "bool option"
  attr_Tmin :: "real option"
  attr_Tmax :: "real option"
  attr_dT :: "real option"

definition getAttribute :: "'a option \<Rightarrow> 'a \<Rightarrow> 'a" where
  "getAttribute a dflt = (case a of None \<Rightarrow> dflt | Some v \<Rightarrow> v)"

definition parseCheck :: "bool \<Rightarrow> string \<Rightarrow> fault + unit" where
  "parseCheck test msg = (if test then Inr () else Inl (ParseError msg))"

text \<open>
  The conversion \<^verbatim>\<open>int(size)\<close> of a \<^verbatim>\<open>double\<close> rounds toward zero; its behaviour
  is undefined when the rounded value is not a 32-bit \<^verbatim>\<open>int\<close>.
\<close>

definition int_of_double :: "real \<Rightarrow> fault + int" where
  "int_of_double x =
     (if - (2 ^ 31) - 1 < x \<and> x < 2 ^ 31
      then Inr (if 0 \<le> x then \<lfloor>x\<rfloor> else \<lceil>x\<rceil>)
      else Inl UndefinedConversion)"

text \<open>
  The check of the table data, lines 67--77 of the constructor. The checks run in the
  order of the source and the first one that fails aborts. The comparisons of the first
  four checks are exact. The fifth computes in \<^verbatim>\<open>double\<close> arithmetic: the parameter
  \<open>rnd\<close> is the rounding of the format, so that the result of an operation on two doubles
  is \<open>rnd\<close> of the exact result, and the literal \<^verbatim>\<open>1.0e-15\<close> is \<open>rnd (1 / 10 ^ 15)\<close>. The
  conversion of the \<^verbatim>\<open>int\<close> back to \<^verbatim>\<open>double\<close> and \<^verbatim>\<open>std::abs\<close> are exact. When
  \<open>size\<close> is zero the quotient is \<open>0/0\<close>, not a number, and the comparison is false. A
  quotient too large for the format is infinite, and its conversion to \<^verbatim>\<open>int\<close> is
  undefined like that of every \<open>size\<close> of \<open>2^31\<close> or more.
\<close>

definition check_table :: "(real \<Rightarrow> real) \<Rightarrow> bool \<Rightarrow> real \<Rightarrow> real \<Rightarrow> real \<Rightarrow> fault + unit" where
  "check_table rnd tabulate table_min table_max table_del =
     (if tabulate then
        fault_bind (parseCheck (table_min > 0) ''Tmin must be positive.'') (\<lambda>_.
        fault_bind (parseCheck (table_max > 0) ''Tmax must be positive.'') (\<lambda>_.
        fault_bind (parseCheck (table_del > 0) ''dT must be positive.'') (\<lambda>_.
        fault_bind (parseCheck (table_min < table_max) ''Tmin must be > Tmax.'') (\<lambda>_.
        let size = rnd (rnd (table_max - table_min) / table_del) in
        fault_bind (int_of_double size) (\<lambda>n.
        parseCheck (size \<noteq> 0
                    \<and> rnd (\<bar>rnd (size - real_of_int n)\<bar> / size) < rnd (1 / 10 ^ 15))
          ''(Tmax - Tmin)/dT must be a positive whole number.'')))))
      else Inr ())"

section \<open>The database\<close>

text \<open>
  A \<^verbatim>\<open>CollisionPairNew\<close> is built from two species. The class \<^verbatim>\<open>CollisionGroup\<close>
  is not part of the source file either; the database uses four of its operations, which
  are parameters of the model: the constructor from the tabulation settings,
  \<^verbatim>\<open>manage(start, end, &CollisionPairNew::get, kind)\<close> on the pairs between the two
  iterators, \<^verbatim>\<open>update(T, thermo)\<close>, and the array of values that the accessors such
  as \<^verbatim>\<open>Q22ii()\<close> read.
\<close>

datatype 'sp CollisionPairNew = CollisionPairNew 'sp 'sp

record ('sp, 'g) CollisionGroupOps =
  grp_construct :: "bool \<Rightarrow> real \<Rightarrow> real \<Rightarrow> real \<Rightarrow> 'g"
  grp_manage :: "'sp CollisionPairNew list \<Rightarrow> string \<Rightarrow> 'g \<Rightarrow> 'g"
  grp_update :: "real \<Rightarrow> 'sp Thermodynamics \<Rightarrow> 'g \<Rightarrow> 'g"
  grp_array :: "'g \<Rightarrow> real list"

text \<open>
  The members of the class that the claims are about. \<^verbatim>\<open>m_groups\<close> is the
  \<^verbatim>\<open>std::map\<close> from names to groups; a reference to one of its entries is the key of
  the entry, which stays valid while the map grows. The factors and results of the two
  diffusion numerators (\<^verbatim>\<open>m_Deifac\<close>, \<^verbatim>\<open>m_Dijfac\<close>, \<^verbatim>\<open>m_nDei\<close>, \<^verbatim>\<open>m_nDij\<close>)
  are left out.
\<close>

record ('sp, 'g) CollisionDB =
  m_tabulate :: bool
  m_table_min :: real
  m_table_max :: real
  m_table_del :: real
  m_pairs :: "'sp CollisionPairNew list"
  m_groups :: "string \<rightharpoonup> 'g"
  m_etai :: "real list"
  m_etafac :: "real list"
  m_Dim :: "real list"

text \<open>
  The two loops of lines 79--83, which append one pair for each \<open>j\<close> from \<open>i\<close> and each
  \<open>i\<close> from zero.
\<close>

function pairs_inner ::
  "'sp list \<Rightarrow> nat \<Rightarrow> nat \<Rightarrow> 'sp CollisionPairNew list \<Rightarrow> 'sp CollisionPairNew list" where
  "pairs_inner sp i j acc =
     (if j < length sp
      then pairs_inner sp i (Suc j) (acc @ [CollisionPairNew (sp ! i) (sp ! j)])
      else acc)"
  by pat_completeness auto
termination
  by (relation "measure (\<lambda>(sp, i, j, acc). length sp - j)") auto

declare pairs_inner.simps [simp del]

function pairs_outer ::
  "'sp list \<Rightarrow> nat \<Rightarrow> 'sp CollisionPairNew list \<Rightarrow> 'sp CollisionPairNew list" where
  "pairs_outer sp i acc =
     (if i < length sp then pairs_outer sp (Suc i) (pairs_inner sp i i acc) else acc)"
  by pat_completeness auto
termination
  by (relation "measure (\<lambda>(sp, i, acc). length sp - i)") auto

declare pairs_outer.simps [simp del]

text \<open>
  The loop of lines 85--88, which writes \<^verbatim>\<open>m_etafac[i-k]\<close> for \<open>i\<close> from \<open>k\<close>. A
  write outside the array is a fault. \<open>RU\<close> is the universal gas constant and \<open>PI\<close> the
  number \<open>\<pi>\<close>; both are declared outside the source file, and \<open>RU\<close> is a parameter.
\<close>

function etafac_loop ::
  "'sp Thermodynamics \<Rightarrow> real \<Rightarrow> nat \<Rightarrow> nat \<Rightarrow> real list \<Rightarrow> fault + real list" where
  "etafac_loop th RU k i fac =
     (if i < nSpecies th then
        (if i - k < length fac
         then etafac_loop th RU k (Suc i)
                (fac[i - k := 5 / 16 * sqrt (pi * RU * speciesMw th i)])
         else Inl OutOfBounds)
      else Inr fac)"
  by pat_completeness auto
termination
  by (relation "measure (\<lambda>(th, RU, k, i, fac). nSpecies th - i)") auto

declare etafac_loop.simps [simp del]

text \<open>
  The constructor \<^verbatim>\<open>CollisionDBNew::CollisionDBNew\<close>: member initialisers (the
  arrays are allocated with their sizes and hold zeros until written), the attributes
  with their defaults, the check of the table data with the rounding \<open>rnd\<close> of the
  \<^verbatim>\<open>double\<close> format, the species pairs, the factors.
\<close>

definition CollisionDBNew ::
  "(real \<Rightarrow> real) \<Rightarrow> RootAttributes \<Rightarrow> real \<Rightarrow> 'sp Thermodynamics
   \<Rightarrow> fault + ('sp, 'g) CollisionDB" where
  "CollisionDBNew rnd attrs RU thermo =
     (let tabulate = getAttribute (attr_tabulate attrs) True;
          table_min = getAttribute (attr_Tmin attrs) 300;
          table_max = getAttribute (attr_Tmax attrs) 20000;
          table_del = getAttribute (attr_dT attrs) 100
      in fault_bind (check_table rnd tabulate table_min table_max table_del) (\<lambda>_.
         let pairs = pairs_outer (species thermo) 0 [];
             k = nSpecies thermo - nHeavy thermo
         in fault_bind (etafac_loop thermo RU k k (replicate (nHeavy thermo) 0)) (\<lambda>etafac.
            Inr \<lparr> m_tabulate = tabulate, m_table_min = table_min,
                  m_table_max = table_max, m_table_del = table_del,
                  m_pairs = pairs, m_groups = Map.empty,
                  m_etai = replicate (nHeavy thermo) 0, m_etafac = etafac,
                  m_Dim = replicate (nSpecies thermo) 0 \<rparr>)))"

section \<open>Groups\<close>

text \<open>
  The loop of lines 155--156, which copies the heavy diagonal pairs into the local
  vector \<^verbatim>\<open>diag\<close>: \<open>index\<close> starts at \<open>k\<close> and grows by \<open>ns - e - i\<close> before \<open>i\<close> is
  incremented. A read of \<^verbatim>\<open>m_pairs[index]\<close> outside the vector is a fault. The
  counters are never negative, so they are natural numbers; \<open>ns - e\<close> is zero where the
  C++ difference would be negative, and the loop body does not run in either case.
\<close>

function diag_loop ::
  "'sp CollisionPairNew list \<Rightarrow> nat \<Rightarrow> nat \<Rightarrow> nat \<Rightarrow> nat \<Rightarrow> 'sp CollisionPairNew list
   \<Rightarrow> fault + 'sp CollisionPairNew list" where
  "diag_loop pairs ns e i index diag =
     (if i < ns - e then
        (if index < length pairs
         then diag_loop pairs ns e (Suc i) (index + (ns - e - i)) (diag @ [pairs ! index])
         else Inl OutOfBounds)
      else Inr diag)"
  by pat_completeness auto
termination
  by (relation "measure (\<lambda>(pairs, ns, e, i, index, diag). ns - e - i)") auto

declare diag_loop.simps [simp del]

text \<open>
  The pair of iterators \<^verbatim>\<open>start\<close>, \<^verbatim>\<open>end\<close> after the \<^verbatim>\<open>switch\<close>: either two
  positions in \<^verbatim>\<open>m_pairs\<close>, or the two ends of the local vector \<^verbatim>\<open>diag\<close>, which is
  carried along. \<open>range_members\<close> lists the pairs between the two iterators.
\<close>

datatype 'sp iter_range =
    InPairs nat nat
  | InDiag "'sp CollisionPairNew list"

fun range_members :: "'sp CollisionPairNew list \<Rightarrow> 'sp iter_range \<Rightarrow> 'sp CollisionPairNew list" where
  "range_members pairs (InPairs start finish) = take (finish - start) (drop start pairs)"
| "range_members pairs (InDiag diag) = diag"

text \<open>
  The \<^verbatim>\<open>switch\<close> of lines 149--166. Moving an iterator past the end of \<^verbatim>\<open>m_pairs\<close>
  is a fault. The default case writes two lines and calls \<^verbatim>\<open>exit(1)\<close>.
\<close>

definition group_switch ::
  "GroupType \<Rightarrow> string \<Rightarrow> 'sp CollisionPairNew list \<Rightarrow> nat \<Rightarrow> nat \<Rightarrow> fault + 'sp iter_range" where
  "group_switch type name pairs ns e =
     (let k = e * ns in
      case type of
        EE \<Rightarrow> if e \<le> length pairs then Inr (InPairs 0 e) else Inl OutOfBounds
      | EI \<Rightarrow> if k \<le> length pairs then Inr (InPairs 0 k) else Inl OutOfBounds
      | IJ \<Rightarrow> if k \<le> length pairs then Inr (InPairs k (length pairs)) else Inl OutOfBounds
      | II \<Rightarrow> fault_bind (diag_loop pairs ns e 0 k []) (\<lambda>diag. Inr (InDiag diag))
      | BAD_TYPE \<Rightarrow>
          fault_bind (substr_from name (length_minus_2 name)) (\<lambda>suffix.
            Inl (Exit 1
              [''Bad collision integral group type: '' @ [CHR 0x27] @ suffix @ [CHR 0x27]
                 @ '' in group name: '' @ [CHR 0x27] @ name @ [CHR 0x27] @ ''.'',
               ''Allowed group types are 'ee', 'ei', 'ii', and 'ij'.''])))"

text \<open>The temperature \<^verbatim>\<open>(type < II ? m_thermo.Te() : m_thermo.T())\<close>.\<close>

definition group_temperature :: "GroupType \<Rightarrow> 'sp Thermodynamics \<Rightarrow> real" where
  "group_temperature type thermo =
     (if group_rank type < group_rank II then thermo_Te thermo else thermo_T thermo)"

text \<open>
  \<^verbatim>\<open>CollisionDBNew::group\<close> (lines 124--175). The flag \<open>ndebug\<close> says whether the
  program was compiled with \<^verbatim>\<open>NDEBUG\<close>, which removes the \<^verbatim>\<open>assert\<close>. The result is
  the reference to the entry of \<^verbatim>\<open>m_groups\<close> (its key) and the new state of the
  database.
\<close>

definition group ::
  "bool \<Rightarrow> ('sp, 'g) CollisionGroupOps \<Rightarrow> 'sp Thermodynamics \<Rightarrow> ('sp, 'g) CollisionDB \<Rightarrow> string
   \<Rightarrow> fault + (string \<times> ('sp, 'g) CollisionDB)" where
  "group ndebug ops thermo db name =
     fault_bind (groupType name) (\<lambda>type.
       if \<not> ndebug \<and> type = BAD_TYPE then Inl AssertionFailed
       else case m_groups db name of
         Some g \<Rightarrow>
           Inr (name, db\<lparr>m_groups := (m_groups db)
                  (name \<mapsto> grp_update ops (group_temperature type thermo) thermo g)\<rparr>)
       | None \<Rightarrow>
           let new_group = grp_construct ops (m_tabulate db) (m_table_min db)
                             (m_table_max db) (m_table_del db);
               ns = nSpecies thermo;
               e = nElectrons thermo
           in fault_bind (group_switch type name (m_pairs db) ns e) (\<lambda>rng.
              fault_bind (substr name 0 (length_minus_2 name)) (\<lambda>kind.
                let managed = grp_manage ops (range_members (m_pairs db) rng) kind new_group
                in Inr (name, db\<lparr>m_groups := (m_groups db)
                     (name \<mapsto> grp_update ops (group_temperature type thermo) thermo managed)\<rparr>))))"

section \<open>Derived quantities\<close>

text \<open>
  Modelled from the spec: the accessor \<^verbatim>\<open>Q22ii()\<close> is declared in the header; by
  section 4.5 of the specification it is the array of values of \<^verbatim>\<open>group("Q22ii")\<close>.
\<close>

definition Q22ii ::
  "bool \<Rightarrow> ('sp, 'g) CollisionGroupOps \<Rightarrow> 'sp Thermodynamics \<Rightarrow> ('sp, 'g) CollisionDB
   \<Rightarrow> fault + (real list \<times> ('sp, 'g) CollisionDB)" where
  "Q22ii ndebug ops thermo db =
     fault_bind (group ndebug ops thermo db ''Q22ii'') (\<lambda>(ref, db').
       case m_groups db' ref of
         None \<Rightarrow> Inl OutOfBounds
       | Some g \<Rightarrow> Inr (grp_array ops g, db'))"

text \<open>
  \<^verbatim>\<open>CollisionDBNew::etai\<close>: the product of a scalar and an array divided elementwise
  by an array of the same size, assigned to \<^verbatim>\<open>m_etai\<close> and returned.
\<close>

definition etai ::
  "bool \<Rightarrow> ('sp, 'g) CollisionGroupOps \<Rightarrow> 'sp Thermodynamics \<Rightarrow> ('sp, 'g) CollisionDB
   \<Rightarrow> fault + (real list \<times> ('sp, 'g) CollisionDB)" where
  "etai ndebug ops thermo db =
     fault_bind (Q22ii ndebug ops thermo db) (\<lambda>(q, db').
       if length q = length (m_etafac db')
       then let v = map2 (\<lambda>f x. sqrt (thermo_T thermo) * f / x) (m_etafac db') q
            in Inr (v, db'\<lparr>m_etai := v\<rparr>)
       else Inl SizeMismatch)"

text \<open>\<^verbatim>\<open>CollisionDBNew::Dim\<close>: a zero array of \<^verbatim>\<open>nSpecies()\<close> entries.\<close>

definition Dim ::
  "'sp Thermodynamics \<Rightarrow> ('sp, 'g) CollisionDB \<Rightarrow> real list \<times> ('sp, 'g) CollisionDB" where
  "Dim thermo db = (let v = replicate (nSpecies thermo) 0 in (v, db\<lparr>m_Dim := v\<rparr>))"

section \<open>The enumeration of the specification and an example mixture\<close>

text \<open>
  The species-pair index as section 3 of the specification describes it, for comparison
  with the loops of the constructor: the index pairs \<open>(i, j)\<close> with \<open>i\<close> ascending and,
  for each \<open>i\<close>, \<open>j\<close> ascending from \<open>i\<close>. \<open>lex_less\<close> is the strict lexicographic
  order on index pairs.
\<close>

definition spec_pair_index :: "nat \<Rightarrow> (nat \<times> nat) list" where
  "spec_pair_index n = concat (map (\<lambda>i. map (Pair i) [i..<n]) [0..<n])"

definition lex_less :: "nat \<times> nat \<Rightarrow> nat \<times> nat \<Rightarrow> bool" where
  "lex_less p q = (fst p < fst q \<or> (fst p = fst q \<and> snd p < snd q))"

definition pair_of :: "'sp list \<Rightarrow> nat \<times> nat \<Rightarrow> 'sp CollisionPairNew" where
  "pair_of sp p = CollisionPairNew (sp ! fst p) (sp ! snd p)"

text \<open>
  The mixture of the end-to-end scenario of section 8 of the specification: the
  electron and two heavy species, and groups whose collision integral is \<open>Q(kind, T) = T\<close>
  for every pair. A group records its members, its kind and its values.
\<close>

record 'sp LinearGroup =
  lg_members :: "'sp CollisionPairNew list"
  lg_kind :: string
  lg_values :: "real list"

definition linear_ops :: "('sp, 'sp LinearGroup) CollisionGroupOps" where
  "linear_ops =
     \<lparr> grp_construct = (\<lambda>tabulate tmin tmax del.
          \<lparr> lg_members = [], lg_kind = [], lg_values = [] \<rparr>),
       grp_manage = (\<lambda>members kind g. g\<lparr>lg_members := members, lg_kind := kind\<rparr>),
       grp_update = (\<lambda>T thermo g. g\<lparr>lg_values := map (\<lambda>p. T) (lg_members g)\<rparr>),
       grp_array = lg_values \<rparr>"

definition example_thermo :: "string Thermodynamics" where
  "example_thermo =
     \<lparr> species = [''e-'', ''N'', ''O''], hasElectrons = True,
       speciesMw = nth [1 / 1000000, 14 / 1000, 16 / 1000],
       thermo_T = 1000, thermo_Te = 4000 \<rparr>"

definition default_attributes :: RootAttributes where
  "default_attributes =
     \<lparr> attr_tabulate = None, attr_Tmin = None, attr_Tmax = None, attr_dT = None \<rparr>"

text \<open>
  The database constructed for the example mixture from the default attributes. The
  bounds of the examples and the results of the operations on them are whole numbers
  and halves far below \<open>2^53\<close>, which the format holds: there every operation is exact,
  and the rounding of the examples leaves its argument as it is.
\<close>

definition exact_rounding :: "real \<Rightarrow> real" where
  "exact_rounding x = x"

definition example_db :: "(string, string LinearGroup) CollisionDB" where
  "example_db =
     projr (CollisionDBNew exact_rounding default_attributes (8314 / 1000) example_thermo)"

text \<open>Construction followed by one call of \<^verbatim>\<open>group\<close> on the new database.\<close>

definition construct_then_group ::
  "bool \<Rightarrow> ('sp, 'g) CollisionGroupOps \<Rightarrow> (real \<Rightarrow> real) \<Rightarrow> RootAttributes \<Rightarrow> real
   \<Rightarrow> 'sp Thermodynamics \<Rightarrow> string \<Rightarrow> fault + (string \<times> ('sp, 'g) CollisionDB)" where
  "construct_then_group ndebug ops rnd attrs RU thermo name =
     fault_bind (CollisionDBNew rnd attrs RU thermo) (\<lambda>db. group ndebug ops thermo db name)"

text \<open>
  An invariant of the cache: every name that keys an entry of \<^verbatim>\<open>m_groups\<close> is a
  name that the classifier accepts.
\<close>

definition cache_valid :: "('sp, 'g) CollisionDB \<Rightarrow> bool" where
  "cache_valid db =
     (\<forall>name. m_groups db name \<noteq> None \<longrightarrow> (\<exists>t. groupType name = Inr t \<and> t \<noteq> BAD_TYPE))"

section \<open>The classifier\<close>

lemma string_at_last_two:
  "string_at (kind @ [c, d]) (int (length (kind @ [c, d])) - 2) = Inr c"
  "string_at (kind @ [c, d]) (int (length (kind @ [c, d])) - 1) = Inr d"
proof -
  have a: "int (length (kind @ [c, d])) - 2 = int (length kind)" by simp
  have b: "int (length (kind @ [c, d])) - 1 = int (Suc (length kind))" by simp
  show "string_at (kind @ [c, d]) (int (length (kind @ [c, d])) - 2) = Inr c"
    unfolding a by (simp add: string_at_def nth_append)
  show "string_at (kind @ [c, d]) (int (length (kind @ [c, d])) - 1) = Inr d"
    unfolding b by (simp add: string_at_def nth_append del: of_nat_Suc)
qed

lemma groupType_suffix: "groupType (kind @ [c, d]) = Inr (suffix_type c d)"
  unfolding groupType_def Let_def string_at_last_two
  by (simp add: fault_bind_def suffix_type_def)

lemma split_last_two:
  assumes "2 \<le> length name"
  shows "\<exists>c d. name = take (length name - 2) name @ [c, d]"
proof -
  let ?n = "length name - 2"
  have "length (drop ?n name) = Suc (Suc 0)" using assms by simp
  then obtain c d where d: "drop ?n name = [c, d]"
    by (auto simp only: length_Suc_conv length_0_conv)
  have "name = take ?n name @ drop ?n name" by simp
  then show ?thesis unfolding d by blast
qed

lemma groupType_short: "length name < 2 \<Longrightarrow> groupType name = Inl OutOfBounds"
  by (simp add: groupType_def string_at_def fault_bind_def)

text \<open>
  C3. The classifier maps the suffixes \<open>ee\<close>, \<open>ei\<close>, \<open>ii\<close>, \<open>ij\<close> to their types and every
  other two-character suffix to the invalid type; for a name shorter than two characters
  the claim expects the invalid type too. On the one-character name \<open>e\<close> and on the empty
  name the code reads \<^verbatim>\<open>name[len-2]\<close> at a negative index, outside the string: it has no
  defined result there, and does not return the invalid type.
\<close>

theorem groupType_one_char_out_of_bounds:
  "groupType ''e'' = Inl OutOfBounds \<and> groupType [] = Inl OutOfBounds
   \<and> groupType ''e'' \<noteq> Inr BAD_TYPE"
  by (simp add: groupType_def string_at_def fault_bind_def)

section \<open>Construction\<close>

lemma etafac_loop_result:
  "k \<le> i \<Longrightarrow> length fac = nSpecies th - k \<Longrightarrow>
   \<exists>fac'. etafac_loop th RU k i fac = Inr fac' \<and> length fac' = length fac \<and>
     (\<forall>j < length fac. fac' ! j =
        (if i - k \<le> j then 5 / 16 * sqrt (pi * RU * speciesMw th (k + j)) else fac ! j))"
proof (induction th RU k i fac rule: etafac_loop.induct)
  case (1 th RU k i fac)
  show ?case
  proof (cases "i < nSpecies th")
    case False
    have "\<not> i - k \<le> j" if "j < length fac" for j
      using that False "1.prems" by linarith
    moreover have "etafac_loop th RU k i fac = Inr fac"
      using False by (simp add: etafac_loop.simps [of th RU k i fac])
    ultimately show ?thesis by simp
  next
    case True
    let ?v = "5 / 16 * sqrt (pi * RU * speciesMw th i)"
    let ?fac = "fac[i - k := ?v]"
    have inb: "i - k < length fac" using True "1.prems" by simp
    have p1: "k \<le> Suc i" using "1.prems" by simp
    have p2: "length ?fac = nSpecies th - k" using "1.prems" by simp
    obtain fac' where r: "etafac_loop th RU k (Suc i) ?fac = Inr fac'"
      and l: "length fac' = length ?fac"
      and v: "\<forall>j < length ?fac. fac' ! j =
               (if Suc i - k \<le> j then 5 / 16 * sqrt (pi * RU * speciesMw th (k + j))
                else ?fac ! j)"
      using "1.IH" [OF True inb p1 p2] by blast
    have e: "etafac_loop th RU k i fac = Inr fac'"
      using True inb r by (simp add: etafac_loop.simps [of th RU k i fac])
    have "fac' ! j =
            (if i - k \<le> j then 5 / 16 * sqrt (pi * RU * speciesMw th (k + j)) else fac ! j)"
      if j: "j < length fac" for j
    proof -
      have vj: "fac' ! j = (if Suc i - k \<le> j then 5 / 16 * sqrt (pi * RU * speciesMw th (k + j))
                else ?fac ! j)"
        using v j by simp
      show ?thesis
      proof (cases "j = i - k")
        case True
        then have kj: "k + j = i" using "1.prems" by simp
        have "\<not> Suc i - k \<le> j" using True "1.prems" by linarith
        then have "fac' ! j = ?fac ! j" using vj by simp
        also have "\<dots> = ?v" using True inb by simp
        finally show ?thesis using True kj by simp
      next
        case False
        have "(Suc i - k \<le> j) = (i - k \<le> j)" using False "1.prems" by linarith
        moreover have "?fac ! j = fac ! j" using False by simp
        ultimately show ?thesis using vj by simp
      qed
    qed
    then show ?thesis using e l by simp
  qed
qed

lemma etafac_constructed:
  "\<exists>fac. etafac_loop th RU (nSpecies th - nHeavy th) (nSpecies th - nHeavy th)
            (replicate (nHeavy th) 0) = Inr fac \<and> length fac = nHeavy th \<and>
     (\<forall>j < nHeavy th. fac ! j =
        5 / 16 * sqrt (pi * RU * speciesMw th (nSpecies th - nHeavy th + j)))"
proof -
  have "length (replicate (nHeavy th) (0::real)) = nSpecies th - (nSpecies th - nHeavy th)"
    by (simp add: nHeavy_def)
  from etafac_loop_result [OF order_refl this, of RU]
  show ?thesis by auto
qed

lemma CollisionDBNew_checked:
  "check_table rnd (getAttribute (attr_tabulate attrs) True) (getAttribute (attr_Tmin attrs) 300)
     (getAttribute (attr_Tmax attrs) 20000) (getAttribute (attr_dT attrs) 100) = Inl f
   \<Longrightarrow> CollisionDBNew rnd attrs RU thermo = Inl f"
  by (simp add: CollisionDBNew_def fault_bind_def)

lemma CollisionDBNew_built:
  assumes "check_table rnd (getAttribute (attr_tabulate attrs) True)
             (getAttribute (attr_Tmin attrs) 300) (getAttribute (attr_Tmax attrs) 20000)
             (getAttribute (attr_dT attrs) 100) = Inr ()"
  shows "\<exists>fac. CollisionDBNew rnd attrs RU thermo =
           Inr \<lparr> m_tabulate = getAttribute (attr_tabulate attrs) True,
                 m_table_min = getAttribute (attr_Tmin attrs) 300,
                 m_table_max = getAttribute (attr_Tmax attrs) 20000,
                 m_table_del = getAttribute (attr_dT attrs) 100,
                 m_pairs = pairs_outer (species thermo) 0 [], m_groups = Map.empty,
                 m_etai = replicate (nHeavy thermo) 0, m_etafac = fac,
                 m_Dim = replicate (nSpecies thermo) 0 \<rparr>
         \<and> length fac = nHeavy thermo
         \<and> (\<forall>j < nHeavy thermo. fac ! j =
              5 / 16 * sqrt (pi * RU * speciesMw thermo (nElectrons thermo + j)))"
proof -
  have k: "nSpecies thermo - nHeavy thermo + j = nElectrons thermo + j"
    if "j < nHeavy thermo" for j
    using that by (simp add: nHeavy_def)
  obtain fac where f: "etafac_loop thermo RU (nSpecies thermo - nHeavy thermo)
      (nSpecies thermo - nHeavy thermo) (replicate (nHeavy thermo) 0) = Inr fac"
    and l: "length fac = nHeavy thermo"
    and v: "\<forall>j < nHeavy thermo. fac ! j =
        5 / 16 * sqrt (pi * RU * speciesMw thermo (nSpecies thermo - nHeavy thermo + j))"
    using etafac_constructed [of thermo RU] by blast
  have "CollisionDBNew rnd attrs RU thermo =
           Inr \<lparr> m_tabulate = getAttribute (attr_tabulate attrs) True,
                 m_table_min = getAttribute (attr_Tmin attrs) 300,
                 m_table_max = getAttribute (attr_Tmax attrs) 20000,
                 m_table_del = getAttribute (attr_dT attrs) 100,
                 m_pairs = pairs_outer (species thermo) 0 [], m_groups = Map.empty,
                 m_etai = replicate (nHeavy thermo) 0, m_etafac = fac,
                 m_Dim = replicate (nSpecies thermo) 0 \<rparr>"
    using assms f by (simp add: CollisionDBNew_def fault_bind_def)
  moreover have "\<forall>j < nHeavy thermo. fac ! j =
              5 / 16 * sqrt (pi * RU * speciesMw thermo (nElectrons thermo + j))"
    using v k by simp
  ultimately show ?thesis using l by blast
qed

lemma check_table_disabled: "check_table rnd False tmin tmax del = Inr ()"
  by (simp add: check_table_def)

lemma CollisionDBNew_fault_iff:
  fixes thermo :: "'sp Thermodynamics"
  shows "(CollisionDBNew rnd attrs RU thermo :: fault + ('sp, 'g) CollisionDB) = Inl f \<longleftrightarrow>
   check_table rnd (getAttribute (attr_tabulate attrs) True) (getAttribute (attr_Tmin attrs) 300)
     (getAttribute (attr_Tmax attrs) 20000) (getAttribute (attr_dT attrs) 100) = Inl f"
proof (cases "check_table rnd (getAttribute (attr_tabulate attrs) True)
     (getAttribute (attr_Tmin attrs) 300) (getAttribute (attr_Tmax attrs) 20000)
     (getAttribute (attr_dT attrs) 100)")
  case (Inl e)
  have "(CollisionDBNew rnd attrs RU thermo :: fault + ('sp, 'g) CollisionDB) = Inl e"
    by (rule CollisionDBNew_checked [OF Inl])
  then show ?thesis by (simp add: Inl)
next
  case (Inr u)
  then have "check_table rnd (getAttribute (attr_tabulate attrs) True)
     (getAttribute (attr_Tmin attrs) 300) (getAttribute (attr_Tmax attrs) 20000)
     (getAttribute (attr_dT attrs) 100) = Inr ()" by simp
  from CollisionDBNew_built [OF this, of RU thermo, where ?'b = 'g] Inr show ?thesis by auto
qed

lemma isl_iff_fault: "isl r \<longleftrightarrow> (\<exists>f. r = Inl f)"
  by (cases r) simp_all

lemma check_table_enabled:
  assumes "s = rnd (rnd (tmax - tmin) / del)"
  shows "check_table rnd True tmin tmax del =
     (if tmin \<le> 0 then Inl (ParseError ''Tmin must be positive.'')
      else if tmax \<le> 0 then Inl (ParseError ''Tmax must be positive.'')
      else if del \<le> 0 then Inl (ParseError ''dT must be positive.'')
      else if tmax \<le> tmin then Inl (ParseError ''Tmin must be > Tmax.'')
      else if \<not> (- (2 ^ 31) - 1 < s \<and> s < 2 ^ 31) then Inl UndefinedConversion
      else if s \<noteq> 0 \<and> rnd (\<bar>rnd (s - real_of_int (if 0 \<le> s then \<lfloor>s\<rfloor> else \<lceil>s\<rceil>))\<bar> / s)
                       < rnd (1 / 10 ^ 15)
      then Inr ()
      else Inl (ParseError ''(Tmax - Tmin)/dT must be a positive whole number.''))"
  unfolding assms
  by (simp add: check_table_def parseCheck_def fault_bind_def Let_def int_of_double_def not_less
      del: of_int_floor_cancel)

lemma span_nonneg:
  fixes rnd :: "real \<Rightarrow> real" and tmin tmax del :: real
  assumes "mono rnd" and "rnd 0 = 0" and "tmin < tmax" and "0 < del"
  shows "0 \<le> rnd (rnd (tmax - tmin) / del)"
proof -
  have "0 \<le> tmax - tmin" using assms(3) by simp
  then have "rnd 0 \<le> rnd (tmax - tmin)" by (rule monoD [OF assms(1)])
  then have "0 \<le> rnd (tmax - tmin) / del"
    using assms(2,4) by simp
  then have "rnd 0 \<le> rnd (rnd (tmax - tmin) / del)" by (rule monoD [OF assms(1)])
  then show ?thesis using assms(2) by simp
qed

lemma grid_test:
  fixes rnd :: "real \<Rightarrow> real" and s :: real
  assumes "mono rnd"
    and "rnd (s - real_of_int \<lfloor>s\<rfloor>) = s - real_of_int \<lfloor>s\<rfloor>"
    and "0 \<le> s"
    and "in_tol = (s \<noteq> 0 \<and> rnd (\<bar>s - real_of_int \<lfloor>s + 1 / 2\<rfloor>\<bar> / s) < eps)"
    and "\<not> (\<lfloor>s + 1 / 2\<rfloor> \<noteq> \<lfloor>s\<rfloor> \<and> in_tol)"
  shows "(s \<noteq> 0 \<and> rnd (\<bar>rnd (s - real_of_int \<lfloor>s\<rfloor>)\<bar> / s) < eps) \<longleftrightarrow> in_tol"
proof -
  let ?f = "s - real_of_int \<lfloor>s\<rfloor>"
  have f: "0 \<le> ?f" "?f < 1" by linarith+
  have code: "(s \<noteq> 0 \<and> rnd (\<bar>rnd ?f\<bar> / s) < eps) \<longleftrightarrow> (s \<noteq> 0 \<and> rnd (?f / s) < eps)"
    using f(1) by (simp only: assms(2) abs_of_nonneg)
  show ?thesis
  proof (cases "\<lfloor>s + 1 / 2\<rfloor> = \<lfloor>s\<rfloor>")
    case True
    have "\<bar>s - real_of_int \<lfloor>s + 1 / 2\<rfloor>\<bar> = ?f"
      unfolding True using f(1) by simp
    then show ?thesis unfolding code assms(4) by simp
  next
    case False
    then have nw: "\<not> in_tol" using assms(5) by simp
    have up: "\<lfloor>s + 1 / 2\<rfloor> = \<lfloor>s\<rfloor> + 1"
      using False by linarith
    have "real_of_int \<lfloor>s + 1 / 2\<rfloor> \<le> s + 1 / 2" by (rule of_int_floor_le)
    then have half: "1 / 2 \<le> ?f" unfolding up by simp
    have "s - real_of_int (\<lfloor>s\<rfloor> + 1) = ?f - 1" by simp
    then have "\<bar>s - real_of_int (\<lfloor>s\<rfloor> + 1)\<bar> = 1 - ?f" using f(2) by linarith
    then have d: "\<bar>s - real_of_int \<lfloor>s + 1 / 2\<rfloor>\<bar> \<le> ?f"
      unfolding up using half by linarith
    have "\<not> (s \<noteq> 0 \<and> rnd (?f / s) < eps)"
    proof
      assume t: "s \<noteq> 0 \<and> rnd (?f / s) < eps"
      then have pos: "0 < s" using assms(3) by simp
      have "\<bar>s - real_of_int \<lfloor>s + 1 / 2\<rfloor>\<bar> / s \<le> ?f / s"
        using d pos by (simp add: divide_right_mono)
      then have "rnd (\<bar>s - real_of_int \<lfloor>s + 1 / 2\<rfloor>\<bar> / s) \<le> rnd (?f / s)"
        by (rule monoD [OF assms(1)])
      then have in_tol using t unfolding assms(4) by simp
      then show False using nw by simp
    qed
    then show ?thesis unfolding code using nw by simp
  qed
qed


text \<open>
  C4, as amended. The rounding \<open>rnd\<close> of the \<^verbatim>\<open>double\<close> format is monotone, leaves zero as
  it is, and leaves the fractional part of a non-negative double as it is: three facts
  of the rounding to nearest of IEEE 754 (continued by the same rule beyond the largest
  double), which are the hypotheses on \<open>rnd\<close>. Construction fails exactly when tabulation
  is enabled and the table data are invalid: \<open>Tmin\<close>, \<open>Tmax\<close> or \<open>dT\<close> is not positive,
  \<open>Tmax \<le> Tmin\<close>, or the span \<open>s = (Tmax - Tmin)/dT\<close>, computed in double arithmetic, is
  not a positive whole number within the relative tolerance \<open>1e-15\<close>; that is, the
  distance of \<open>s\<close> to its nearest whole number, divided by \<open>s\<close> in double arithmetic, is not
  below the double \<^verbatim>\<open>1.0e-15\<close>. Nothing is stated for a span that lies below its
  nearest whole number and within the tolerance of it, nor for a span of \<open>2^31\<close> or more.
  The failure carries the message of the first check that is violated, in the order of
  the source. The attributes that are absent take their defaults. The configuration
  \<open>{Tmin=300, Tmax=20000, dT=100}\<close> is accepted and \<open>{Tmin=300, Tmax=20050, dT=100}\<close> is
  rejected, under every such rounding that leaves the numbers 19700, 197, 19750 and
  197.5 as they are and rounds \<open>1e-15\<close> to a positive number.
\<close>

theorem construction_fails_iff_enabled_table_invalid:
  fixes rnd :: "real \<Rightarrow> real" and attrs :: RootAttributes and thermo :: "'sp Thermodynamics"
    and r :: "fault + ('sp, 'g) CollisionDB"
  assumes "mono rnd" and "rnd 0 = 0"
    and "\<forall>x. 0 \<le> rnd x \<longrightarrow>
              rnd (rnd x - real_of_int \<lfloor>rnd x\<rfloor>) = rnd x - real_of_int \<lfloor>rnd x\<rfloor>"
    and "r = CollisionDBNew rnd attrs RU thermo"
    and "tabulate = getAttribute (attr_tabulate attrs) True"
    and "tmin = getAttribute (attr_Tmin attrs) 300"
    and "tmax = getAttribute (attr_Tmax attrs) 20000"
    and "del = getAttribute (attr_dT attrs) 100"
    and "s = rnd (rnd (tmax - tmin) / del)"
    and "in_tol = (s \<noteq> 0 \<and> rnd (\<bar>s - real_of_int \<lfloor>s + 1 / 2\<rfloor>\<bar> / s) < rnd (1 / 10 ^ 15))"
    and "left_out = (tabulate \<and> 0 < tmin \<and> 0 < tmax \<and> 0 < del \<and> tmin < tmax
                     \<and> (2 ^ 31 \<le> s \<or> (\<lfloor>s + 1 / 2\<rfloor> \<noteq> \<lfloor>s\<rfloor> \<and> in_tol)))"
  shows "(\<not> left_out \<longrightarrow>
            (isl r \<longleftrightarrow>
               tabulate \<and> (tmin \<le> 0 \<or> tmax \<le> 0 \<or> del \<le> 0 \<or> tmax \<le> tmin \<or> \<not> in_tol)))
       \<and> (r = Inl (ParseError ''Tmin must be positive.'') \<longleftrightarrow> tabulate \<and> tmin \<le> 0)
       \<and> (r = Inl (ParseError ''Tmax must be positive.'') \<longleftrightarrow>
            tabulate \<and> 0 < tmin \<and> tmax \<le> 0)
       \<and> (r = Inl (ParseError ''dT must be positive.'') \<longleftrightarrow>
            tabulate \<and> 0 < tmin \<and> 0 < tmax \<and> del \<le> 0)
       \<and> (r = Inl (ParseError ''Tmin must be > Tmax.'') \<longleftrightarrow>
            tabulate \<and> 0 < tmin \<and> 0 < tmax \<and> 0 < del \<and> tmax \<le> tmin)
       \<and> (\<not> left_out \<longrightarrow>
            (r = Inl (ParseError ''(Tmax - Tmin)/dT must be a positive whole number.'') \<longleftrightarrow>
               tabulate \<and> 0 < tmin \<and> 0 < tmax \<and> 0 < del \<and> tmin < tmax \<and> \<not> in_tol))
       \<and> (attrs = \<lparr> attr_tabulate = None, attr_Tmin = Some 300, attr_Tmax = Some 20000,
                     attr_dT = Some 100 \<rparr>
            \<and> rnd 19700 = 19700 \<and> rnd 197 = 197 \<and> 0 < rnd (1 / 10 ^ 15)
          \<longrightarrow> \<not> isl r)
       \<and> (attrs = \<lparr> attr_tabulate = None, attr_Tmin = Some 300, attr_Tmax = Some 20050,
                     attr_dT = Some 100 \<rparr>
            \<and> rnd 19750 = 19750 \<and> rnd (395 / 2) = 395 / 2
          \<longrightarrow> r = Inl (ParseError ''(Tmax - Tmin)/dT must be a positive whole number.''))"
proof (cases tabulate)
  case False
  then have "check_table rnd tabulate tmin tmax del = Inr ()"
    by (simp add: check_table_disabled)
  then have no: "\<And>f. r \<noteq> Inl f"
    unfolding assms(4-8) CollisionDBNew_fault_iff by simp
  have "attrs \<noteq> \<lparr> attr_tabulate = None, attr_Tmin = Some 300, attr_Tmax = Some 20000,
                     attr_dT = Some 100 \<rparr>"
    "attrs \<noteq> \<lparr> attr_tabulate = None, attr_Tmin = Some 300, attr_Tmax = Some 20050,
                     attr_dT = Some 100 \<rparr>"
    using False unfolding assms(5) by (auto simp add: getAttribute_def)
  then show ?thesis using False no by (simp add: isl_iff_fault)
next
  case True
  let ?chk = "check_table rnd True tmin tmax del"
  let ?m5 = "''(Tmax - Tmin)/dT must be a positive whole number.''"
  have c: "\<And>f. r = Inl f \<longleftrightarrow> ?chk = Inl f"
    using True unfolding assms(4-8) CollisionDBNew_fault_iff by simp
  have i: "isl r \<longleftrightarrow> isl ?chk"
    by (simp add: isl_iff_fault c)
  note chk = check_table_enabled [where rnd = rnd and tmin = tmin and tmax = tmax and del = del
      and s = s, OF assms(9)]
  show ?thesis
  proof (cases "0 < tmin \<and> 0 < tmax \<and> 0 < del \<and> tmin < tmax")
    case False
    then have lo: "\<not> left_out" unfolding assms(11) by blast
    have ex: "attrs \<noteq> \<lparr> attr_tabulate = None, attr_Tmin = Some 300, attr_Tmax = Some 20000,
                     attr_dT = Some 100 \<rparr>"
      "attrs \<noteq> \<lparr> attr_tabulate = None, attr_Tmin = Some 300, attr_Tmax = Some 20050,
                     attr_dT = Some 100 \<rparr>"
      using False unfolding assms(6-8) by (auto simp add: getAttribute_def)
    show ?thesis
      unfolding c i chk using False True ex by (auto simp add: not_less)
  next
    case bounds: True
    have nn: "0 \<le> s"
      unfolding assms(9) using bounds by (intro span_nonneg [OF assms(1,2)]) simp_all
    have fl: "(if 0 \<le> s then \<lfloor>s\<rfloor> else \<lceil>s\<rceil>) = \<lfloor>s\<rfloor>" using nn by simp
    have h4: "rnd (s - real_of_int \<lfloor>s\<rfloor>) = s - real_of_int \<lfloor>s\<rfloor>"
      using nn assms(3) unfolding assms(9) by blast
    let ?T = "s \<noteq> 0 \<and> rnd (\<bar>rnd (s - real_of_int \<lfloor>s\<rfloor>)\<bar> / s) < rnd (1 / 10 ^ 15)"
    have v: "?chk = (if \<not> s < 2 ^ 31 then Inl UndefinedConversion
                     else if ?T then Inr () else Inl (ParseError ?m5))"
      unfolding chk fl using bounds nn by (simp add: not_le)
    have main: "?T \<longleftrightarrow> in_tol" if "\<not> left_out"
    proof -
      have "\<not> (\<lfloor>s + 1 / 2\<rfloor> \<noteq> \<lfloor>s\<rfloor> \<and> in_tol)"
        using that True bounds unfolding assms(11) by blast
      from grid_test [OF assms(1) h4 nn assms(10) this] show ?thesis .
    qed
    have small: "s < 2 ^ 31" if "\<not> left_out"
      using that True bounds unfolding assms(11) by (simp add: not_le)
    have first: "\<not> left_out \<longrightarrow>
            (isl r \<longleftrightarrow>
               tabulate \<and> (tmin \<le> 0 \<or> tmax \<le> 0 \<or> del \<le> 0 \<or> tmax \<le> tmin \<or> \<not> in_tol))"
    proof
      assume lo: "\<not> left_out"
      have "isl ?chk \<longleftrightarrow> \<not> in_tol"
        unfolding v using small [OF lo] main [OF lo] by simp
      then show "isl r \<longleftrightarrow>
               tabulate \<and> (tmin \<le> 0 \<or> tmax \<le> 0 \<or> del \<le> 0 \<or> tmax \<le> tmin \<or> \<not> in_tol)"
        unfolding i using True bounds by (simp add: not_le)
    qed
    have fifth: "\<not> left_out \<longrightarrow>
            (r = Inl (ParseError ?m5) \<longleftrightarrow>
               tabulate \<and> 0 < tmin \<and> 0 < tmax \<and> 0 < del \<and> tmin < tmax \<and> \<not> in_tol)"
    proof
      assume lo: "\<not> left_out"
      have "?chk = Inl (ParseError ?m5) \<longleftrightarrow> \<not> in_tol"
        unfolding v using small [OF lo] main [OF lo] by simp
      then show "r = Inl (ParseError ?m5) \<longleftrightarrow>
               tabulate \<and> 0 < tmin \<and> 0 < tmax \<and> 0 < del \<and> tmin < tmax \<and> \<not> in_tol"
        unfolding c using True bounds by simp
    qed
    have others: "r \<noteq> Inl (ParseError ''Tmin must be positive.'')"
      "r \<noteq> Inl (ParseError ''Tmax must be positive.'')"
      "r \<noteq> Inl (ParseError ''dT must be positive.'')"
      "r \<noteq> Inl (ParseError ''Tmin must be > Tmax.'')"
      unfolding c v by simp_all
    have ex1: "\<not> isl r"
      if "attrs = \<lparr> attr_tabulate = None, attr_Tmin = Some 300, attr_Tmax = Some 20000,
                     attr_dT = Some 100 \<rparr>"
        and "rnd 19700 = 19700" and "rnd 197 = 197" and "0 < rnd (1 / 10 ^ 15)"
    proof -
      have "s = 197"
        unfolding assms(6-9) that(1) by (simp add: getAttribute_def that(2,3))
      then have "?chk = Inr ()"
        unfolding v using that(4) assms(2) by simp
      then show ?thesis unfolding i by simp
    qed
    have ex2: "r = Inl (ParseError ?m5)"
      if "attrs = \<lparr> attr_tabulate = None, attr_Tmin = Some 300, attr_Tmax = Some 20050,
                     attr_dT = Some 100 \<rparr>"
        and "rnd 19750 = 19750" and "rnd (395 / 2) = 395 / 2"
    proof -
      have s: "s = 395 / 2"
        unfolding assms(6-9) that(1) by (simp add: getAttribute_def that(2,3))
      have f: "\<lfloor>s\<rfloor> = 197" unfolding s by simp
      have half: "rnd (s - real_of_int \<lfloor>s\<rfloor>) = 1 / 2"
        unfolding h4 unfolding f s by simp
      have "rnd (1 / 10 ^ 15) \<le> rnd (\<bar>1 / 2\<bar> / s)"
        by (rule monoD [OF assms(1)]) (simp add: s)
      then have "\<not> rnd (\<bar>1 / 2\<bar> / s) < rnd (1 / 10 ^ 15)" by (rule leD)
      then have "\<not> ?T" unfolding half by blast
      moreover have "s < 2 ^ 31" unfolding s by simp
      ultimately have "?chk = Inl (ParseError ?m5)"
        unfolding v by (simp only: not_not not_True_eq_False if_True if_False)
      then show ?thesis unfolding c .
    qed
    show ?thesis
      using first fifth others ex1 ex2 True bounds by (simp add: not_le)
  qed
qed


text \<open>
  The two configurations that the claim names, where every operation is exact:
  \<open>{Tmin=300, Tmax=20000, dT=100}\<close> is accepted, \<open>{Tmin=300, Tmax=20050, dT=100}\<close> is
  rejected for its span of 197.5.
\<close>

theorem construction_fails_iff_enabled_table_invalid_witness:
  "\<not> isl (CollisionDBNew exact_rounding
              \<lparr> attr_tabulate = None, attr_Tmin = Some 300, attr_Tmax = Some 20000,
                attr_dT = Some 100 \<rparr> (8314 / 1000) example_thermo
            :: fault + (string, string LinearGroup) CollisionDB)
   \<and> (CollisionDBNew exact_rounding
              \<lparr> attr_tabulate = None, attr_Tmin = Some 300, attr_Tmax = Some 20050,
                attr_dT = Some 100 \<rparr> (8314 / 1000) example_thermo
            :: fault + (string, string LinearGroup) CollisionDB)
       = Inl (ParseError ''(Tmax - Tmin)/dT must be a positive whole number.'')"
proof -
  have m: "mono exact_rounding"
    by (simp add: mono_def exact_rounding_def)
  have z: "exact_rounding 0 = 0"
    by (simp add: exact_rounding_def)
  have h: "\<forall>x. 0 \<le> exact_rounding x \<longrightarrow>
              exact_rounding (exact_rounding x - real_of_int \<lfloor>exact_rounding x\<rfloor>)
              = exact_rounding x - real_of_int \<lfloor>exact_rounding x\<rfloor>"
    by (simp add: exact_rounding_def)
  note c2 = conjunct2
  note valid = construction_fails_iff_enabled_table_invalid
            [OF m z h refl refl refl refl refl refl refl refl,
             where attrs = "\<lparr> attr_tabulate = None, attr_Tmin = Some 300,
                              attr_Tmax = Some 20000, attr_dT = Some 100 \<rparr>"
               and RU = "8314 / 1000" and thermo = example_thermo
               and ?'g = "string LinearGroup",
             THEN c2, THEN c2, THEN c2, THEN c2, THEN c2, THEN c2, THEN conjunct1, rule_format]
  note invalid = construction_fails_iff_enabled_table_invalid
            [OF m z h refl refl refl refl refl refl refl refl,
             where attrs = "\<lparr> attr_tabulate = None, attr_Tmin = Some 300,
                              attr_Tmax = Some 20050, attr_dT = Some 100 \<rparr>"
               and RU = "8314 / 1000" and thermo = example_thermo
               and ?'g = "string LinearGroup",
             THEN c2, THEN c2, THEN c2, THEN c2, THEN c2, THEN c2, THEN c2, rule_format]
  have "\<not> isl (CollisionDBNew exact_rounding
              \<lparr> attr_tabulate = None, attr_Tmin = Some 300, attr_Tmax = Some 20000,
                attr_dT = Some 100 \<rparr> (8314 / 1000) example_thermo
            :: fault + (string, string LinearGroup) CollisionDB)"
    by (rule valid) (simp add: exact_rounding_def)
  moreover have "(CollisionDBNew exact_rounding
              \<lparr> attr_tabulate = None, attr_Tmin = Some 300, attr_Tmax = Some 20050,
                attr_dT = Some 100 \<rparr> (8314 / 1000) example_thermo
            :: fault + (string, string LinearGroup) CollisionDB)
       = Inl (ParseError ''(Tmax - Tmin)/dT must be a positive whole number.'')"
    by (rule invalid) (simp add: exact_rounding_def)
  ultimately show ?thesis by (rule conjI)
qed


text \<open>
  C4 as stated does not hold: with \<open>tabulate\<close> set to false, a configuration whose
  \<open>Tmin\<close> is negative is accepted.
\<close>

theorem construction_accepts_bad_bounds_counterexample:
  "(-1::real) \<le> 0
   \<and> \<not> isl (CollisionDBNew exact_rounding \<lparr> attr_tabulate = Some False, attr_Tmin = Some (-1),
                attr_Tmax = Some 20000, attr_dT = Some 100 \<rparr> (8314 / 1000) example_thermo
              :: fault + (string, string LinearGroup) CollisionDB)"
  by (simp add: isl_iff_fault CollisionDBNew_fault_iff getAttribute_def check_table_disabled)

text \<open>
  C9. When the configuration sets \<open>tabulate\<close> to false, no check of \<open>Tmin\<close>, \<open>Tmax\<close> or
  \<open>dT\<close> is made: construction succeeds for every value of the three, and the database
  stores them as they are.
\<close>

theorem construction_unchecked_when_not_tabulating:
  fixes thermo :: "'sp Thermodynamics"
  assumes "attr_tabulate attrs = Some False"
  shows "check_table rnd (getAttribute (attr_tabulate attrs) True) (getAttribute (attr_Tmin attrs) 300)
           (getAttribute (attr_Tmax attrs) 20000) (getAttribute (attr_dT attrs) 100) = Inr ()
       \<and> (\<exists>db. (CollisionDBNew rnd attrs RU thermo :: fault + ('sp, 'g) CollisionDB) = Inr db
             \<and> \<not> m_tabulate db
             \<and> m_table_min db = getAttribute (attr_Tmin attrs) 300
             \<and> m_table_max db = getAttribute (attr_Tmax attrs) 20000
             \<and> m_table_del db = getAttribute (attr_dT attrs) 100)"
proof -
  have t: "getAttribute (attr_tabulate attrs) True = False"
    using assms by (simp add: getAttribute_def)
  have c: "check_table rnd (getAttribute (attr_tabulate attrs) True)
             (getAttribute (attr_Tmin attrs) 300) (getAttribute (attr_Tmax attrs) 20000)
             (getAttribute (attr_dT attrs) 100) = Inr ()"
    unfolding t by (rule check_table_disabled)
  from CollisionDBNew_built [OF c, of RU thermo, where ?'b = 'g]
  obtain fac where "(CollisionDBNew rnd attrs RU thermo :: fault + ('sp, 'g) CollisionDB) =
           Inr \<lparr> m_tabulate = getAttribute (attr_tabulate attrs) True,
                 m_table_min = getAttribute (attr_Tmin attrs) 300,
                 m_table_max = getAttribute (attr_Tmax attrs) 20000,
                 m_table_del = getAttribute (attr_dT attrs) 100,
                 m_pairs = pairs_outer (species thermo) 0 [], m_groups = Map.empty,
                 m_etai = replicate (nHeavy thermo) 0, m_etafac = fac,
                 m_Dim = replicate (nSpecies thermo) 0 \<rparr>"
    by blast
  then show ?thesis using c t by simp
qed

theorem construction_unchecked_when_not_tabulating_witness:
  "\<exists>db. (CollisionDBNew exact_rounding \<lparr> attr_tabulate = Some False, attr_Tmin = Some (-5),
              attr_Tmax = Some (-10), attr_dT = Some 0 \<rparr> (8314 / 1000) example_thermo
            :: fault + (string, string LinearGroup) CollisionDB) = Inr db
        \<and> m_table_min db = -5 \<and> m_table_max db = -10 \<and> m_table_del db = 0"
  using construction_unchecked_when_not_tabulating
          [where attrs = "\<lparr> attr_tabulate = Some False, attr_Tmin = Some (-5),
                 attr_Tmax = Some (-10), attr_dT = Some 0 \<rparr>"
             and rnd = exact_rounding and RU = "8314 / 1000" and thermo = example_thermo
             and ?'g = "string LinearGroup"]
  by (auto simp add: getAttribute_def)

section \<open>The species-pair index\<close>

lemma pairs_inner_eq:
  "pairs_inner sp i j acc = acc @ map (\<lambda>j. CollisionPairNew (sp ! i) (sp ! j)) [j..<length sp]"
proof (induction sp i j acc rule: pairs_inner.induct)
  case (1 sp i j acc)
  show ?case
  proof (cases "j < length sp")
    case True
    have "pairs_inner sp i j acc =
          pairs_inner sp i (Suc j) (acc @ [CollisionPairNew (sp ! i) (sp ! j)])"
      using True by (simp add: pairs_inner.simps [of sp i j acc])
    also have "\<dots> = (acc @ [CollisionPairNew (sp ! i) (sp ! j)])
                     @ map (\<lambda>j. CollisionPairNew (sp ! i) (sp ! j)) [Suc j..<length sp]"
      by (rule "1.IH" [OF True])
    also have "\<dots> = acc @ map (\<lambda>j. CollisionPairNew (sp ! i) (sp ! j)) [j..<length sp]"
      using True by (simp add: upt_conv_Cons)
    finally show ?thesis .
  next
    case False
    then show ?thesis by (simp add: pairs_inner.simps [of sp i j acc])
  qed
qed

lemma pairs_outer_eq:
  "pairs_outer sp i acc =
     acc @ concat (map (\<lambda>i. map (\<lambda>j. CollisionPairNew (sp ! i) (sp ! j)) [i..<length sp])
                       [i..<length sp])"
proof (induction sp i acc rule: pairs_outer.induct)
  case (1 sp i acc)
  show ?case
  proof (cases "i < length sp")
    case True
    have u: "[i..<length sp] = i # [Suc i..<length sp]"
      using True by (rule upt_conv_Cons)
    have "pairs_outer sp i acc = pairs_outer sp (Suc i) (pairs_inner sp i i acc)"
      using True by (simp add: pairs_outer.simps [of sp i acc])
    also have "\<dots> = pairs_inner sp i i acc
        @ concat (map (\<lambda>i. map (\<lambda>j. CollisionPairNew (sp ! i) (sp ! j)) [i..<length sp])
                      [Suc i..<length sp])"
      by (rule "1.IH" [OF True])
    also have "\<dots> = acc @ concat (map (\<lambda>i. map (\<lambda>j. CollisionPairNew (sp ! i) (sp ! j))
                                          [i..<length sp]) (i # [Suc i..<length sp]))"
      by (simp add: pairs_inner_eq)
    finally show ?thesis by (simp only: u [symmetric])
  next
    case False
    then show ?thesis by (simp add: pairs_outer.simps [of sp i acc])
  qed
qed

lemma pairs_outer_spec:
  "pairs_outer sp 0 [] = map (pair_of sp) (spec_pair_index (length sp))"
proof -
  have "map (pair_of sp) \<circ> (\<lambda>i. map (Pair i) [i..<length sp])
          = (\<lambda>i. map (\<lambda>j. CollisionPairNew (sp ! i) (sp ! j)) [i..<length sp])"
    by (rule ext) (simp add: pair_of_def)
  then show ?thesis
    by (simp add: pairs_outer_eq spec_pair_index_def map_concat)
qed

lemma rows_from_length:
  "a \<le> n \<Longrightarrow>
   2 * length (concat (map (\<lambda>i. map (Pair i) [i..<n]) [a..<n])) = (n - a) * (n - a + 1)"
proof (induction "n - a" arbitrary: a)
  case 0
  then show ?case by simp
next
  case (Suc d)
  then have lt: "a < n" and d: "d = n - Suc a" and sa: "Suc a \<le> n" by simp_all
  have ih: "2 * length (concat (map (\<lambda>i. map (Pair i) [i..<n]) [Suc a..<n]))
              = (n - Suc a) * (n - Suc a + 1)"
    by (rule Suc.hyps(1) [OF d sa])
  have na: "n - a = Suc d" using Suc.hyps(2) by simp
  have "2 * length (concat (map (\<lambda>i. map (Pair i) [i..<n]) [a..<n]))
          = 2 * (n - a) + 2 * length (concat (map (\<lambda>i. map (Pair i) [i..<n]) [Suc a..<n]))"
    using lt by (simp add: upt_conv_Cons)
  also have "\<dots> = 2 * Suc d + d * (d + 1)"
    unfolding ih na d [symmetric] by simp
  also have "\<dots> = (n - a) * (n - a + 1)"
    unfolding na by simp
  finally show ?case .
qed

lemma spec_pair_index_length: "length (spec_pair_index n) = n * (n + 1) div 2"
proof -
  have "2 * length (spec_pair_index n) = n * (n + 1)"
    using rows_from_length [of 0 n] by (simp add: spec_pair_index_def)
  then show ?thesis by simp
qed

lemma rows_from_set:
  "set (concat (map (\<lambda>i. map (Pair i) [i..<n]) [a..<n])) = {(i, j). a \<le> i \<and> i \<le> j \<and> j < n}"
  by (auto simp: image_iff)

lemma spec_pair_index_set: "set (spec_pair_index n) = {(i, j). i \<le> j \<and> j < n}"
  unfolding spec_pair_index_def rows_from_set by simp

lemma row_sorted: "sorted_wrt lex_less (map (Pair a) [a..<n])"
  by (simp add: sorted_wrt_map lex_less_def)

lemma rows_from_sorted:
  "sorted_wrt lex_less (concat (map (\<lambda>i. map (Pair i) [i..<n]) [a..<n]))"
proof (induction "n - a" arbitrary: a)
  case 0
  then show ?case by simp
next
  case (Suc d)
  then have lt: "a < n" and d: "d = n - Suc a" by simp_all
  have split: "concat (map (\<lambda>i. map (Pair i) [i..<n]) [a..<n])
      = map (Pair a) [a..<n] @ concat (map (\<lambda>i. map (Pair i) [i..<n]) [Suc a..<n])"
    using lt by (simp add: upt_conv_Cons)
  have cross: "lex_less x y"
    if "x \<in> set (map (Pair a) [a..<n])"
      and "y \<in> set (concat (map (\<lambda>i. map (Pair i) [i..<n]) [Suc a..<n]))" for x y
  proof -
    have "fst x = a" using that(1) by auto
    moreover have "Suc a \<le> fst y" using that(2) unfolding rows_from_set by auto
    ultimately show ?thesis by (simp add: lex_less_def)
  qed
  show ?case
    unfolding split sorted_wrt_append
    using row_sorted [of a n] Suc.hyps(1) [OF d] cross by blast
qed

lemma spec_pair_index_sorted: "sorted_wrt lex_less (spec_pair_index n)"
  unfolding spec_pair_index_def by (rule rows_from_sorted)

lemma default_check: "check_table exact_rounding (getAttribute (attr_tabulate default_attributes) True)
     (getAttribute (attr_Tmin default_attributes) 300)
     (getAttribute (attr_Tmax default_attributes) 20000)
     (getAttribute (attr_dT default_attributes) 100) = Inr ()"
  by (simp add: default_attributes_def getAttribute_def check_table_def parseCheck_def
      fault_bind_def int_of_double_def exact_rounding_def)

lemma default_construction:
  fixes thermo :: "'sp Thermodynamics"
  shows "\<exists>db. (CollisionDBNew exact_rounding default_attributes RU thermo :: fault + ('sp, 'g) CollisionDB) = Inr db"
  using CollisionDBNew_built [OF default_check, of RU thermo, where ?'b = 'g] by blast

lemma Inr_projr: "\<exists>v. r = Inr v \<Longrightarrow> r = Inr (projr r)"
  by auto

text \<open>
  C5. For \<open>n\<close> species, with or without electrons, the pairs of the constructed database
  are those of the index pairs \<open>(i, j)\<close> enumerated with \<open>i\<close> ascending and \<open>j\<close> ascending
  from \<open>i\<close>; there are \<open>n (n + 1) / 2\<close> of them; the index pairs enumerated are exactly
  those with \<open>i \<le> j < n\<close>, and they come in strictly increasing lexicographic order.
\<close>

theorem species_pair_index_enumeration:
  fixes thermo :: "'sp Thermodynamics"
  assumes "(CollisionDBNew rnd attrs RU thermo :: fault + ('sp, 'g) CollisionDB) = Inr db"
    and "n = nSpecies thermo"
  shows "m_pairs db = map (pair_of (species thermo)) (spec_pair_index n)
       \<and> length (m_pairs db) = n * (n + 1) div 2
       \<and> set (spec_pair_index n) = {(i, j). i \<le> j \<and> j < n}
       \<and> sorted_wrt lex_less (spec_pair_index n)"
proof -
  have "check_table rnd (getAttribute (attr_tabulate attrs) True)
     (getAttribute (attr_Tmin attrs) 300) (getAttribute (attr_Tmax attrs) 20000)
     (getAttribute (attr_dT attrs) 100) = Inr ()"
  proof (cases "check_table rnd (getAttribute (attr_tabulate attrs) True)
     (getAttribute (attr_Tmin attrs) 300) (getAttribute (attr_Tmax attrs) 20000)
     (getAttribute (attr_dT attrs) 100)")
    case (Inl f)
    have "(CollisionDBNew rnd attrs RU thermo :: fault + ('sp, 'g) CollisionDB) = Inl f"
      by (rule CollisionDBNew_checked [OF Inl])
    then show ?thesis using assms(1) by simp
  next
    case (Inr u)
    then show ?thesis by simp
  qed
  from CollisionDBNew_built [OF this, of RU thermo, where ?'b = 'g] assms(1)
  have "m_pairs db = pairs_outer (species thermo) 0 []" by auto
  then have p: "m_pairs db = map (pair_of (species thermo)) (spec_pair_index n)"
    by (simp add: pairs_outer_spec assms(2) nSpecies_def)
  show ?thesis
    unfolding p by (simp add: spec_pair_index_length spec_pair_index_set spec_pair_index_sorted)
qed

text \<open>The six pairs of the example mixture, in the order of the index.\<close>

theorem species_pair_index_enumeration_witness:
  "m_pairs (projr (CollisionDBNew exact_rounding default_attributes (8314 / 1000) example_thermo
                     :: fault + (string, string LinearGroup) CollisionDB))
     = [CollisionPairNew ''e-'' ''e-'', CollisionPairNew ''e-'' ''N'', CollisionPairNew ''e-'' ''O'',
        CollisionPairNew ''N'' ''N'', CollisionPairNew ''N'' ''O'', CollisionPairNew ''O'' ''O'']
   \<and> length (m_pairs (projr (CollisionDBNew exact_rounding default_attributes (8314 / 1000) example_thermo
                     :: fault + (string, string LinearGroup) CollisionDB))) = 6"
proof -
  have s: "spec_pair_index 3 = [(0, 0), (0, 1), (0, 2), (1, 1), (1, 2), (2, 2)]"
    by (simp add: spec_pair_index_def numeral_3_eq_3)
  have n: "3 = nSpecies example_thermo"
    by (simp add: nSpecies_def example_thermo_def)
  have c: "(CollisionDBNew exact_rounding default_attributes (8314 / 1000) example_thermo
             :: fault + (string, string LinearGroup) CollisionDB)
           = Inr (projr (CollisionDBNew exact_rounding default_attributes (8314 / 1000) example_thermo))"
    by (rule Inr_projr [OF default_construction])
  show ?thesis
    using species_pair_index_enumeration [OF c n]
    by (simp add: s pair_of_def example_thermo_def)
qed

section \<open>Selecting the members of a group\<close>

lemma upt_split_at: "a < n \<Longrightarrow> [0..<n] = [0..<a] @ a # [Suc a..<n]"
proof -
  assume a: "a < n"
  have "[0..<a + (n - a)] = [0..<a] @ [a..<a + (n - a)]"
    by (rule upt_add_eq_append) simp
  then have "[0..<n] = [0..<a] @ [a..<n]" using a by simp
  then show ?thesis using a by (simp add: upt_conv_Cons)
qed

lemma spec_pair_index_split:
  assumes "a < n"
  shows "spec_pair_index n =
           concat (map (\<lambda>i. map (Pair i) [i..<n]) [0..<a])
           @ (a, a) # (map (Pair a) [Suc a..<n]
                        @ concat (map (\<lambda>i. map (Pair i) [i..<n]) [Suc a..<n]))"
proof -
  have r: "map (Pair a) [a..<n] = (a, a) # map (Pair a) [Suc a..<n]"
    using assms by (simp add: upt_conv_Cons)
  show ?thesis
    unfolding spec_pair_index_def upt_split_at [OF assms]
    by (simp add: r)
qed

lemma spec_pair_index_diagonal:
  assumes "a < n"
  shows "length (concat (map (\<lambda>i. map (Pair i) [i..<n]) [0..<a])) < length (spec_pair_index n)"
    and "spec_pair_index n ! length (concat (map (\<lambda>i. map (Pair i) [i..<n]) [0..<a])) = (a, a)"
proof -
  let ?A = "concat (map (\<lambda>i. map (Pair i) [i..<n]) [0..<a])"
  let ?B = "map (Pair a) [Suc a..<n] @ concat (map (\<lambda>i. map (Pair i) [i..<n]) [Suc a..<n])"
  have s: "spec_pair_index n = ?A @ (a, a) # ?B"
    by (rule spec_pair_index_split [OF assms])
  show "length ?A < length (spec_pair_index n)"
    by (simp only: s length_append list.size)
  show "spec_pair_index n ! length ?A = (a, a)"
    by (simp only: s nth_append_length)
qed

lemma row_offset_Suc:
  assumes "a < n"
  shows "length (concat (map (\<lambda>i. map (Pair i) [i..<n]) [0..<Suc a]))
         = length (concat (map (\<lambda>i. map (Pair i) [i..<n]) [0..<a])) + (n - a)"
  by simp

lemma diag_loop_eq:
  assumes "pairs = map (pair_of sp) (spec_pair_index ns)"
    and "index = length (concat (map (\<lambda>i. map (Pair i) [i..<ns]) [0..<e + i]))"
  shows "diag_loop pairs ns e i index diag
         = Inr (diag @ map (\<lambda>a. pair_of sp (a, a)) [e + i..<ns])"
  using assms
proof (induction pairs ns e i index diag rule: diag_loop.induct)
  case (1 pairs ns e i index diag)
  show ?case
  proof (cases "i < ns - e")
    case False
    then have "[e + i..<ns] = []" by simp
    then show ?thesis using False by (simp add: diag_loop.simps [of pairs ns e i index diag])
  next
    case True
    then have a: "e + i < ns" by simp
    have inb: "index < length pairs"
      using spec_pair_index_diagonal(1) [OF a] "1.prems" by simp
    have at: "pairs ! index = pair_of sp (e + i, e + i)"
      using spec_pair_index_diagonal [OF a] "1.prems" by simp
    have next_index: "index + (ns - e - i)
        = length (concat (map (\<lambda>i. map (Pair i) [i..<ns]) [0..<e + Suc i]))"
      using "1.prems"(2) row_offset_Suc [OF a] by simp
    have "diag_loop pairs ns e i index diag
          = diag_loop pairs ns e (Suc i) (index + (ns - e - i)) (diag @ [pairs ! index])"
      using True inb by (simp add: diag_loop.simps [of pairs ns e i index diag])
    also have "\<dots> = Inr ((diag @ [pairs ! index]) @ map (\<lambda>a. pair_of sp (a, a)) [e + Suc i..<ns])"
      by (rule "1.IH" [OF True inb "1.prems"(1) next_index])
    also have "\<dots> = Inr (diag @ map (\<lambda>a. pair_of sp (a, a)) [e + i..<ns])"
      using a by (simp add: at upt_conv_Cons)
    finally show ?thesis .
  qed
qed

lemma electrons_offset:
  fixes e ns :: nat
  assumes "e \<le> 1"
  shows "e * ns = length (concat (map (\<lambda>i. map (Pair i) [i..<ns]) [0..<e + 0]))"
proof (cases "e = 0")
  case True
  then show ?thesis by simp
next
  case False
  then have "e = 1" using assms by simp
  then show ?thesis by simp
qed

lemma electrons_block_fits:
  fixes e ns :: nat
  assumes "e \<le> 1" and "e \<le> ns"
  shows "e * ns \<le> ns * (ns + 1) div 2" and "e \<le> ns * (ns + 1) div 2"
proof -
  have "2 * (e * ns) \<le> ns * (ns + 1)"
  proof (cases "e = 0")
    case True
    then show ?thesis by simp
  next
    case False
    then have e: "e = 1" and "1 \<le> ns" using assms by simp_all
    then have "ns * 2 \<le> ns * (ns + 1)" by (intro mult_le_mono2) simp
    then show ?thesis using e by (simp add: mult.commute)
  qed
  then show k: "e * ns \<le> ns * (ns + 1) div 2" by simp
  have "e \<le> e * ns" using assms by (cases "e = 0") simp_all
  then show "e \<le> ns * (ns + 1) div 2" using k by (rule order_trans)
qed

lemma group_switch_constructed:
  assumes "pairs = map (pair_of sp) (spec_pair_index ns)" and "e \<le> 1" and "e \<le> ns"
  shows "group_switch EE name pairs ns e = Inr (InPairs 0 e)"
    and "group_switch EI name pairs ns e = Inr (InPairs 0 (e * ns))"
    and "group_switch IJ name pairs ns e = Inr (InPairs (e * ns) (length pairs))"
    and "group_switch II name pairs ns e = Inr (InDiag (map (\<lambda>a. pair_of sp (a, a)) [e..<ns]))"
proof -
  have len: "length pairs = ns * (ns + 1) div 2"
    by (simp add: assms(1) spec_pair_index_length)
  show "group_switch EE name pairs ns e = Inr (InPairs 0 e)"
    using electrons_block_fits(2) [OF assms(2,3)] by (simp add: group_switch_def len)
  show "group_switch EI name pairs ns e = Inr (InPairs 0 (e * ns))"
    using electrons_block_fits(1) [OF assms(2,3)] by (simp add: group_switch_def len)
  show "group_switch IJ name pairs ns e = Inr (InPairs (e * ns) (length pairs))"
    using electrons_block_fits(1) [OF assms(2,3)] by (simp add: group_switch_def len)
  have "diag_loop pairs ns e 0 (e * ns) [] = Inr ([] @ map (\<lambda>a. pair_of sp (a, a)) [e + 0..<ns])"
    by (rule diag_loop_eq [OF assms(1) electrons_offset [OF assms(2)]])
  then show "group_switch II name pairs ns e = Inr (InDiag (map (\<lambda>a. pair_of sp (a, a)) [e..<ns]))"
    by (simp add: group_switch_def fault_bind_def)
qed

section \<open>The cache of groups\<close>

lemma CollisionDBNew_Inr:
  fixes thermo :: "'sp Thermodynamics" and db :: "('sp, 'g) CollisionDB"
  assumes "CollisionDBNew rnd attrs RU thermo = Inr db"
  shows "m_pairs db = map (pair_of (species thermo)) (spec_pair_index (nSpecies thermo))"
    and "m_groups db = Map.empty"
    and "length (m_etafac db) = nHeavy thermo"
    and "\<forall>j < nHeavy thermo. m_etafac db ! j =
              5 / 16 * sqrt (pi * RU * speciesMw thermo (nElectrons thermo + j))"
proof -
  have c: "check_table rnd (getAttribute (attr_tabulate attrs) True)
     (getAttribute (attr_Tmin attrs) 300) (getAttribute (attr_Tmax attrs) 20000)
     (getAttribute (attr_dT attrs) 100) = Inr ()"
  proof (cases "check_table rnd (getAttribute (attr_tabulate attrs) True)
     (getAttribute (attr_Tmin attrs) 300) (getAttribute (attr_Tmax attrs) 20000)
     (getAttribute (attr_dT attrs) 100)")
    case (Inl f)
    have "(CollisionDBNew rnd attrs RU thermo :: fault + ('sp, 'g) CollisionDB) = Inl f"
      by (rule CollisionDBNew_checked [OF Inl])
    then show ?thesis using assms by simp
  next
    case (Inr u)
    then show ?thesis by simp
  qed
  from CollisionDBNew_built [OF c, of RU thermo, where ?'b = 'g] assms
  obtain fac where db: "db = \<lparr> m_tabulate = getAttribute (attr_tabulate attrs) True,
                 m_table_min = getAttribute (attr_Tmin attrs) 300,
                 m_table_max = getAttribute (attr_Tmax attrs) 20000,
                 m_table_del = getAttribute (attr_dT attrs) 100,
                 m_pairs = pairs_outer (species thermo) 0 [], m_groups = Map.empty,
                 m_etai = replicate (nHeavy thermo) 0, m_etafac = fac,
                 m_Dim = replicate (nSpecies thermo) 0 \<rparr>"
    and l: "length fac = nHeavy thermo"
    and v: "\<forall>j < nHeavy thermo. fac ! j =
              5 / 16 * sqrt (pi * RU * speciesMw thermo (nElectrons thermo + j))"
    by auto
  show "m_pairs db = map (pair_of (species thermo)) (spec_pair_index (nSpecies thermo))"
    by (simp add: db pairs_outer_spec nSpecies_def)
  show "m_groups db = Map.empty" by (simp add: db)
  show "length (m_etafac db) = nHeavy thermo" by (simp add: db l)
  show "\<forall>j < nHeavy thermo. m_etafac db ! j =
              5 / 16 * sqrt (pi * RU * speciesMw thermo (nElectrons thermo + j))"
    using v by (simp add: db)
qed

lemma groupType_Inr_length: "groupType name = Inr t \<Longrightarrow> 2 \<le> length name"
  using groupType_short [of name] by (cases "length name < 2") simp_all

lemma group_kind:
  "2 \<le> length name \<Longrightarrow> substr name 0 (length_minus_2 name) = Inr (take (length name - 2) name)"
  by (simp add: substr_def length_minus_2_def)

lemma group_suffix:
  "2 \<le> length name \<Longrightarrow> substr_from name (length_minus_2 name) = Inr (drop (length name - 2) name)"
  by (simp add: substr_from_def length_minus_2_def)

lemma nElectrons_le_1: "nElectrons thermo \<le> 1"
  by (simp add: nElectrons_def)

lemma group_hit:
  assumes "groupType name = Inr type" and "ndebug \<or> type \<noteq> BAD_TYPE"
    and "m_groups db name = Some g"
  shows "group ndebug ops thermo db name =
           Inr (name, db\<lparr>m_groups := (m_groups db)
                  (name \<mapsto> grp_update ops (group_temperature type thermo) thermo g)\<rparr>)"
  using assms by (auto simp add: group_def fault_bind_def)

lemma group_miss:
  assumes "groupType name = Inr type" and "ndebug \<or> type \<noteq> BAD_TYPE"
    and "m_groups db name = None"
    and "group_switch type name (m_pairs db) (nSpecies thermo) (nElectrons thermo) = Inr rng"
  shows "group ndebug ops thermo db name =
           Inr (name, db\<lparr>m_groups := (m_groups db)
                  (name \<mapsto> grp_update ops (group_temperature type thermo) thermo
                     (grp_manage ops (range_members (m_pairs db) rng)
                        (take (length name - 2) name)
                        (grp_construct ops (m_tabulate db) (m_table_min db)
                           (m_table_max db) (m_table_del db))))\<rparr>)"
proof -
  have k: "substr name 0 (length_minus_2 name) = Inr (take (length name - 2) name)"
    by (rule group_kind [OF groupType_Inr_length [OF assms(1)]])
  show ?thesis
    using assms(2) by (auto simp add: group_def fault_bind_def assms(1,3,4) k Let_def)
qed

lemma group_assertion:
  assumes "groupType name = Inr BAD_TYPE"
  shows "group False ops thermo db name = Inl AssertionFailed"
  by (simp add: group_def fault_bind_def assms)

lemma group_exit:
  assumes "groupType name = Inr BAD_TYPE" and "m_groups db name = None"
  shows "group True ops thermo db name =
           Inl (Exit 1
              [''Bad collision integral group type: '' @ [CHR 0x27]
                 @ drop (length name - 2) name @ [CHR 0x27]
                 @ '' in group name: '' @ [CHR 0x27] @ name @ [CHR 0x27] @ ''.'',
               ''Allowed group types are 'ee', 'ei', 'ii', and 'ij'.''])"
proof -
  have s: "substr_from name (length_minus_2 name) = Inr (drop (length name - 2) name)"
    by (rule group_suffix [OF groupType_Inr_length [OF assms(1)]])
  show ?thesis
    by (simp add: group_def fault_bind_def assms group_switch_def s Let_def)
qed

lemma group_selected:
  fixes thermo :: "'sp Thermodynamics" and db :: "('sp, 'g) CollisionDB"
  assumes "m_pairs db = map (pair_of (species thermo)) (spec_pair_index (nSpecies thermo))"
    and "nElectrons thermo \<le> nSpecies thermo"
    and "type \<noteq> BAD_TYPE"
  shows "\<exists>rng. group_switch type name (m_pairs db) (nSpecies thermo) (nElectrons thermo) = Inr rng"
  using group_switch_constructed [OF assms(1) nElectrons_le_1 assms(2), of name] assms(3)
  by (cases type) simp_all

lemma cache_valid_constructed:
  fixes thermo :: "'sp Thermodynamics" and db :: "('sp, 'g) CollisionDB"
  assumes "CollisionDBNew rnd attrs RU thermo = Inr db"
  shows "cache_valid db"
  by (simp add: cache_valid_def CollisionDBNew_Inr(2) [OF assms])

lemma cache_valid_group:
  assumes "cache_valid db" and "group ndebug ops thermo db name = Inr (ref, db')"
  shows "cache_valid db'"
proof -
  obtain type where t: "groupType name = Inr type"
    using assms(2) by (cases "groupType name") (simp_all add: group_def fault_bind_def)
  have ok: "type \<noteq> BAD_TYPE"
  proof
    assume b: "type = BAD_TYPE"
    show False
    proof (cases "m_groups db name")
      case None
      have "group ndebug ops thermo db name
              = Inl AssertionFailed \<or> (\<exists>out. group ndebug ops thermo db name = Inl (Exit 1 out))"
        using group_assertion [of name ops thermo db] group_exit [of name db ops thermo] t b None
        by (cases ndebug) auto
      then show False using assms(2) by auto
    next
      case (Some g)
      then show False using assms(1) t b by (auto simp add: cache_valid_def)
    qed
  qed
  have "\<exists>g. m_groups db' = (m_groups db)(name \<mapsto> g)"
    using assms(2) t ok
    by (auto simp add: group_def fault_bind_def Let_def split: option.splits sum.splits)
  then obtain g where m: "m_groups db' = (m_groups db)(name \<mapsto> g)" by blast
  show ?thesis
    unfolding cache_valid_def
  proof (intro allI impI)
    fix n assume n: "m_groups db' n \<noteq> None"
    show "\<exists>t. groupType n = Inr t \<and> t \<noteq> BAD_TYPE"
    proof (cases "n = name")
      case True
      then show ?thesis using t ok by simp
    next
      case False
      then have "m_groups db n \<noteq> None" using n m by simp
      then show ?thesis using assms(1) by (simp add: cache_valid_def)
    qed
  qed
qed

section \<open>The example database\<close>

lemma example_db_constructed:
  "CollisionDBNew exact_rounding default_attributes (8314 / 1000) example_thermo = Inr example_db"
  unfolding example_db_def by (rule Inr_projr [OF default_construction])

lemma example_counts: "nSpecies example_thermo = 3" "nElectrons example_thermo = 1"
  by (simp_all add: nSpecies_def nElectrons_def example_thermo_def)

lemma example_fields:
  "species example_thermo = [''e-'', ''N'', ''O'']"
  "thermo_T example_thermo = 1000" "thermo_Te example_thermo = 4000"
  by (simp_all add: example_thermo_def)

lemma example_pairs:
  "m_pairs example_db
     = [CollisionPairNew ''e-'' ''e-'', CollisionPairNew ''e-'' ''N'', CollisionPairNew ''e-'' ''O'',
        CollisionPairNew ''N'' ''N'', CollisionPairNew ''N'' ''O'', CollisionPairNew ''O'' ''O'']"
proof -
  have s: "spec_pair_index 3 = [(0, 0), (0, 1), (0, 2), (1, 1), (1, 2), (2, 2)]"
    by (simp add: spec_pair_index_def numeral_3_eq_3)
  show ?thesis
    by (simp add: CollisionDBNew_Inr(1) [OF example_db_constructed] example_counts s pair_of_def
        example_fields)
qed

lemma example_settings:
  "m_groups example_db = Map.empty" "m_tabulate example_db = True"
  "m_table_min example_db = 300" "m_table_max example_db = 20000" "m_table_del example_db = 100"
proof -
  show "m_groups example_db = Map.empty"
    by (rule CollisionDBNew_Inr(2) [OF example_db_constructed])
  from CollisionDBNew_built [OF default_check, of "8314 / 1000" example_thermo,
      where ?'b = "string LinearGroup"]
  obtain fac where "CollisionDBNew exact_rounding default_attributes (8314 / 1000) example_thermo =
           Inr \<lparr> m_tabulate = getAttribute (attr_tabulate default_attributes) True,
                 m_table_min = getAttribute (attr_Tmin default_attributes) 300,
                 m_table_max = getAttribute (attr_Tmax default_attributes) 20000,
                 m_table_del = getAttribute (attr_dT default_attributes) 100,
                 m_pairs = pairs_outer (species example_thermo) 0 [],
                 m_groups = (Map.empty :: string \<rightharpoonup> string LinearGroup),
                 m_etai = replicate (nHeavy example_thermo) 0, m_etafac = fac,
                 m_Dim = replicate (nSpecies example_thermo) 0 \<rparr>"
    by blast
  then have e: "example_db =
               \<lparr> m_tabulate = getAttribute (attr_tabulate default_attributes) True,
                 m_table_min = getAttribute (attr_Tmin default_attributes) 300,
                 m_table_max = getAttribute (attr_Tmax default_attributes) 20000,
                 m_table_del = getAttribute (attr_dT default_attributes) 100,
                 m_pairs = pairs_outer (species example_thermo) 0 [],
                 m_groups = Map.empty,
                 m_etai = replicate (nHeavy example_thermo) 0, m_etafac = fac,
                 m_Dim = replicate (nSpecies example_thermo) 0 \<rparr>"
    by (simp only: example_db_constructed sum.inject)
  show "m_tabulate example_db = True"
    by (subst e) (simp add: default_attributes_def getAttribute_def)
  show "m_table_min example_db = 300"
    by (subst e) (simp add: default_attributes_def getAttribute_def)
  show "m_table_max example_db = 20000"
    by (subst e) (simp add: default_attributes_def getAttribute_def)
  show "m_table_del example_db = 100"
    by (subst e) (simp add: default_attributes_def getAttribute_def)
qed

section \<open>The claims about groups\<close>



lemma group_temperature_cases:
  "type \<noteq> BAD_TYPE \<Longrightarrow>
   group_temperature type thermo
     = (if type = EE \<or> type = EI then thermo_Te thermo else thermo_T thermo)"
  by (cases type) (simp_all add: group_temperature_def)

text \<open>
  C2. For a valid name, two calls of \<^verbatim>\<open>group\<close> return the reference to the same
  entry of the cache, the one keyed by the name: the second call adds no entry and
  touches no other entry. On each call, whether the name was cached or not, the group
  is updated at the temperature of the thermodynamic state at the time of the call: the
  electron temperature for \<open>EE\<close> and \<open>EI\<close>, the heavy temperature for \<open>II\<close> and \<open>IJ\<close>. The
  temperatures may change between the two calls.
\<close>

theorem group_twice_same_entry:
  fixes thermo thermo' :: "'sp Thermodynamics" and db0 db :: "('sp, 'g) CollisionDB"
  assumes "CollisionDBNew rnd attrs RU thermo = Inr db0"
    and "m_pairs db = m_pairs db0"
    and "nElectrons thermo \<le> nSpecies thermo"
    and "groupType name = Inr type" and "type \<noteq> BAD_TYPE"
    and "thermo' = thermo\<lparr>thermo_T := T', thermo_Te := Te'\<rparr>"
    and "temp = (if type = EE \<or> type = EI then thermo_Te thermo else thermo_T thermo)"
    and "temp' = (if type = EE \<or> type = EI then Te' else T')"
  shows "\<exists>rng g db1 db2.
           group_switch type name (m_pairs db) (nSpecies thermo) (nElectrons thermo) = Inr rng
         \<and> g = (case m_groups db name of
                  Some cached \<Rightarrow> cached
                | None \<Rightarrow> grp_manage ops (range_members (m_pairs db) rng)
                            (take (length name - 2) name)
                            (grp_construct ops (m_tabulate db) (m_table_min db)
                               (m_table_max db) (m_table_del db)))
         \<and> group ndebug ops thermo db name = Inr (name, db1)
         \<and> m_groups db1 name = Some (grp_update ops temp thermo g)
         \<and> group ndebug ops thermo' db1 name = Inr (name, db2)
         \<and> m_groups db2 name = Some (grp_update ops temp' thermo' (grp_update ops temp thermo g))
         \<and> dom (m_groups db2) = dom (m_groups db1)
         \<and> (\<forall>other. other \<noteq> name \<longrightarrow> m_groups db2 other = m_groups db1 other)"
proof -
  have p: "m_pairs db = map (pair_of (species thermo)) (spec_pair_index (nSpecies thermo))"
    unfolding assms(2) by (rule CollisionDBNew_Inr(1) [OF assms(1)])
  obtain rng where rng:
    "group_switch type name (m_pairs db) (nSpecies thermo) (nElectrons thermo) = Inr rng"
    using group_selected [OF p assms(3,5)] by blast
  have nd: "ndebug \<or> type \<noteq> BAD_TYPE" using assms(5) by simp
  have t: "group_temperature type thermo = temp"
    unfolding assms(7) by (rule group_temperature_cases [OF assms(5)])
  have t': "group_temperature type thermo' = temp'"
    unfolding assms(8) group_temperature_cases [OF assms(5)] by (simp add: assms(6))
  define g where "g = (case m_groups db name of
                  Some cached \<Rightarrow> cached
                | None \<Rightarrow> grp_manage ops (range_members (m_pairs db) rng)
                            (take (length name - 2) name)
                            (grp_construct ops (m_tabulate db) (m_table_min db)
                               (m_table_max db) (m_table_del db)))"
  define db1 where "db1 = db\<lparr>m_groups := (m_groups db)(name \<mapsto> grp_update ops temp thermo g)\<rparr>"
  define db2 where "db2 = db1\<lparr>m_groups := (m_groups db1)
                      (name \<mapsto> grp_update ops temp' thermo' (grp_update ops temp thermo g))\<rparr>"
  have first: "group ndebug ops thermo db name = Inr (name, db1)"
  proof (cases "m_groups db name")
    case None
    show ?thesis
      using group_miss [OF assms(4) nd None rng, of ops]
      by (simp add: db1_def g_def None t)
  next
    case (Some cached)
    show ?thesis
      using group_hit [OF assms(4) nd Some, of ops thermo]
      by (simp add: db1_def g_def Some t)
  qed
  have e1: "m_groups db1 name = Some (grp_update ops temp thermo g)"
    by (simp add: db1_def)
  have second: "group ndebug ops thermo' db1 name = Inr (name, db2)"
    using group_hit [OF assms(4) nd e1, of ops thermo'] by (simp add: db2_def t')
  have e2: "m_groups db2 name
              = Some (grp_update ops temp' thermo' (grp_update ops temp thermo g))"
    by (simp add: db2_def)
  have d: "dom (m_groups db2) = dom (m_groups db1)"
    by (auto simp add: db2_def db1_def)
  have o: "\<forall>other. other \<noteq> name \<longrightarrow> m_groups db2 other = m_groups db1 other"
    by (simp add: db2_def)
  show ?thesis
    using rng g_def first e1 second e2 d o by blast
qed


text \<open>
  In the example, \<open>Q11ei\<close> has three values, equal to the electron temperature of each
  call: 4000 at first and 5000 after the temperatures have changed.
\<close>

theorem group_twice_same_entry_witness:
  "\<exists>db1 db2.
       group False linear_ops example_thermo example_db ''Q11ei'' = Inr (''Q11ei'', db1)
     \<and> map_option lg_values (m_groups db1 ''Q11ei'') = Some [4000, 4000, 4000]
     \<and> group False linear_ops (example_thermo\<lparr>thermo_T := 1200, thermo_Te := 5000\<rparr>) db1 ''Q11ei''
         = Inr (''Q11ei'', db2)
     \<and> map_option lg_values (m_groups db2 ''Q11ei'') = Some [5000, 5000, 5000]"
proof -
  have wf: "nElectrons example_thermo \<le> nSpecies example_thermo"
    by (simp add: example_counts)
  have t: "groupType ''Q11ei'' = Inr EI"
    by (simp add: groupType_def string_at_def fault_bind_def)
  have ne: "EI \<noteq> BAD_TYPE" by simp
  from group_twice_same_entry [OF example_db_constructed refl wf t ne refl refl refl,
      where ops = linear_ops and ndebug = False and T' = 1200 and Te' = 5000]
  obtain rng g db1 db2 where
      r: "group_switch EI ''Q11ei'' (m_pairs example_db) (nSpecies example_thermo)
            (nElectrons example_thermo) = Inr rng"
    and g: "g = (case m_groups example_db ''Q11ei'' of
                  Some cached \<Rightarrow> cached
                | None \<Rightarrow> grp_manage linear_ops (range_members (m_pairs example_db) rng)
                            (take (length ''Q11ei'' - 2) ''Q11ei'')
                            (grp_construct linear_ops (m_tabulate example_db)
                               (m_table_min example_db) (m_table_max example_db)
                               (m_table_del example_db)))"
    and c1: "group False linear_ops example_thermo example_db ''Q11ei'' = Inr (''Q11ei'', db1)"
    and e1: "m_groups db1 ''Q11ei'' = Some (grp_update linear_ops
               (if EI = EE \<or> EI = EI then thermo_Te example_thermo else thermo_T example_thermo)
               example_thermo g)"
    and c2: "group False linear_ops (example_thermo\<lparr>thermo_T := 1200, thermo_Te := 5000\<rparr>) db1
               ''Q11ei'' = Inr (''Q11ei'', db2)"
    and e2: "m_groups db2 ''Q11ei'' = Some (grp_update linear_ops
               (if EI = EE \<or> EI = EI then 5000 else 1200)
               (example_thermo\<lparr>thermo_T := 1200, thermo_Te := 5000\<rparr>)
               (grp_update linear_ops
                  (if EI = EE \<or> EI = EI then thermo_Te example_thermo else thermo_T example_thermo)
                  example_thermo g))"
    by (elim exE conjE) (rule that, assumption+)
  have "rng = InPairs 0 3"
    using r by (simp add: group_switch_def example_counts example_pairs)
  then have m: "lg_members g = [CollisionPairNew ''e-'' ''e-'', CollisionPairNew ''e-'' ''N'',
                               CollisionPairNew ''e-'' ''O'']"
    by (simp add: g example_settings example_pairs linear_ops_def)
  have "map_option lg_values (m_groups db1 ''Q11ei'') = Some [4000, 4000, 4000]"
    by (simp add: e1 linear_ops_def m example_fields)
  moreover have "map_option lg_values (m_groups db2 ''Q11ei'') = Some [5000, 5000, 5000]"
    by (simp add: e2 linear_ops_def m)
  ultimately show ?thesis using c1 c2 by (intro exI conjI)
qed

lemma groupType_last_two:
  assumes "2 \<le> length name"
  shows "\<exists>c d. drop (length name - 2) name = [c, d] \<and> groupType name = Inr (suffix_type c d)"
proof -
  obtain c d where n: "name = take (length name - 2) name @ [c, d]"
    using split_last_two [OF assms] by blast
  have "take (length name - 2) name @ drop (length name - 2) name
          = take (length name - 2) name @ [c, d]"
    using n by simp
  then have "drop (length name - 2) name = [c, d]" by (simp only: same_append_eq)
  moreover have "groupType name = Inr (suffix_type c d)"
    by (subst n) (rule groupType_suffix)
  ultimately show ?thesis by blast
qed

lemma suffix_type_bad_iff:
  "suffix_type c d = BAD_TYPE \<longleftrightarrow> [c, d] \<notin> {''ee'', ''ei'', ''ii'', ''ij''}"
  by (auto simp add: suffix_type_def)

lemma groupType_bad_suffix:
  assumes "2 \<le> length name"
    and "drop (length name - 2) name \<notin> {''ee'', ''ei'', ''ii'', ''ij''}"
  shows "groupType name = Inr BAD_TYPE"
proof -
  obtain c d where d: "drop (length name - 2) name = [c, d]"
    and t: "groupType name = Inr (suffix_type c d)"
    using groupType_last_two [OF assms(1)] by blast
  have "suffix_type c d = BAD_TYPE"
    using assms(2) unfolding d suffix_type_bad_iff .
  then show ?thesis using t by simp
qed

text \<open>
  C7, as amended. A call of \<^verbatim>\<open>group\<close> with a name of at least two characters whose
  suffix is none of \<open>ee\<close>, \<open>ei\<close>, \<open>ii\<close>, \<open>ij\<close> never returns; it terminates the process. In a
  program compiled with \<^verbatim>\<open>NDEBUG\<close> it writes the diagnostic that names the suffix and
  the group name, then the line with the allowed suffixes, and calls \<^verbatim>\<open>exit(1)\<close>. In a
  program compiled with assertions, the failed \<^verbatim>\<open>assert\<close> terminates it before any of the
  two lines is written. The cache is in a state that construction and calls of
  \<^verbatim>\<open>group\<close> reach (lemmas \<open>cache_valid_constructed\<close> and \<open>cache_valid_group\<close>).
\<close>

theorem group_bad_suffix_is_fatal:
  assumes "2 \<le> length name"
    and "drop (length name - 2) name \<notin> {''ee'', ''ei'', ''ii'', ''ij''}"
    and "cache_valid db"
  shows "group ndebug ops thermo db name =
           (if ndebug
            then Inl (Exit 1
              [''Bad collision integral group type: '' @ [CHR 0x27]
                 @ drop (length name - 2) name @ [CHR 0x27]
                 @ '' in group name: '' @ [CHR 0x27] @ name @ [CHR 0x27] @ ''.'',
               ''Allowed group types are 'ee', 'ei', 'ii', and 'ij'.''])
            else Inl AssertionFailed)"
proof -
  have b: "groupType name = Inr BAD_TYPE"
    by (rule groupType_bad_suffix [OF assms(1,2)])
  have n: "m_groups db name = None"
  proof (rule ccontr)
    assume "m_groups db name \<noteq> None"
    then have "\<exists>t. groupType name = Inr t \<and> t \<noteq> BAD_TYPE"
      using assms(3) by (simp add: cache_valid_def)
    then show False using b by simp
  qed
  show ?thesis
  proof (cases ndebug)
    case True
    then show ?thesis using group_exit [OF b n, of ops thermo] by simp
  next
    case False
    then show ?thesis using group_assertion [OF b, of ops thermo db] by simp
  qed
qed

text \<open>The name \<open>Q11xx\<close> on the example database, without and with assertions.\<close>

theorem group_bad_suffix_is_fatal_witness:
  "group True linear_ops example_thermo example_db ''Q11xx'' =
     Inl (Exit 1 [''Bad collision integral group type: 'xx' in group name: 'Q11xx'.'',
                  ''Allowed group types are 'ee', 'ei', 'ii', and 'ij'.''])
   \<and> group False linear_ops example_thermo example_db ''Q11xx'' = Inl AssertionFailed"
proof -
  have l: "2 \<le> length ''Q11xx''" by simp
  have s: "drop (length ''Q11xx'' - 2) ''Q11xx'' \<notin> {''ee'', ''ei'', ''ii'', ''ij''}" by simp
  have c: "cache_valid example_db"
    by (rule cache_valid_constructed [OF example_db_constructed])
  show ?thesis
    using group_bad_suffix_is_fatal [OF l s c, of True linear_ops example_thermo]
          group_bad_suffix_is_fatal [OF l s c, of False linear_ops example_thermo]
    by simp
qed

text \<open>
  C7 as stated does not hold of a program compiled with assertions: on the newly
  constructed example database the name \<open>Q11xx\<close> ends in the failed assertion, and the
  diagnostic with the suffix and the allowed suffixes is not written.
\<close>

theorem group_bad_suffix_assertion_counterexample:
  "construct_then_group False linear_ops exact_rounding default_attributes (8314 / 1000) example_thermo ''Q11xx''
     = Inl AssertionFailed
   \<and> construct_then_group False linear_ops exact_rounding default_attributes (8314 / 1000) example_thermo
       ''Q11xx''
     \<noteq> Inl (Exit 1 [''Bad collision integral group type: 'xx' in group name: 'Q11xx'.'',
                       ''Allowed group types are 'ee', 'ei', 'ii', and 'ij'.''])"
proof -
  have b: "groupType ''Q11xx'' = Inr BAD_TYPE"
    by (simp add: groupType_def string_at_def fault_bind_def)
  show ?thesis
    unfolding construct_then_group_def example_db_constructed
    by (simp add: fault_bind_def group_assertion [OF b])
qed

text \<open>
  C10. A name that consists of a valid suffix alone is accepted: the classifier gives
  the type of the suffix, the kind \<^verbatim>\<open>name.substr(0, name.length()-2)\<close> is the empty
  string, and on a cache miss the new group manages its members under the empty kind.
\<close>

theorem two_letter_name_accepted:
  fixes thermo :: "'sp Thermodynamics" and db0 db :: "('sp, 'g) CollisionDB"
  assumes "name \<in> {''ee'', ''ei'', ''ii'', ''ij''}"
    and "CollisionDBNew rnd attrs RU thermo = Inr db0"
    and "m_pairs db = m_pairs db0"
    and "nElectrons thermo \<le> nSpecies thermo"
    and "m_groups db name = None"
    and "type = (if name = ''ee'' then EE else if name = ''ei'' then EI
                 else if name = ''ii'' then II else IJ)"
  shows "groupType name = Inr type
       \<and> substr name 0 (length_minus_2 name) = Inr []
       \<and> (\<exists>rng. group_switch type name (m_pairs db) (nSpecies thermo) (nElectrons thermo) = Inr rng
            \<and> group ndebug ops thermo db name
                = Inr (name, db\<lparr>m_groups := (m_groups db)
                    (name \<mapsto> grp_update ops (group_temperature type thermo) thermo
                       (grp_manage ops (range_members (m_pairs db) rng) []
                          (grp_construct ops (m_tabulate db) (m_table_min db)
                             (m_table_max db) (m_table_del db))))\<rparr>))"
proof -
  have t: "groupType name = Inr type"
    using assms(1) unfolding assms(6)
    by (auto simp add: groupType_def string_at_def fault_bind_def)
  have ok: "type \<noteq> BAD_TYPE" unfolding assms(6) by simp
  have len: "length name = 2" using assms(1) by auto
  have k: "substr name 0 (length_minus_2 name) = Inr []"
    by (simp add: substr_def length_minus_2_def len)
  have p: "m_pairs db = map (pair_of (species thermo)) (spec_pair_index (nSpecies thermo))"
    unfolding assms(3) by (rule CollisionDBNew_Inr(1) [OF assms(2)])
  obtain rng where rng:
    "group_switch type name (m_pairs db) (nSpecies thermo) (nElectrons thermo) = Inr rng"
    using group_selected [OF p assms(4) ok] by blast
  have nd: "ndebug \<or> type \<noteq> BAD_TYPE" using ok by simp
  have "group ndebug ops thermo db name
                = Inr (name, db\<lparr>m_groups := (m_groups db)
                    (name \<mapsto> grp_update ops (group_temperature type thermo) thermo
                       (grp_manage ops (range_members (m_pairs db) rng) []
                          (grp_construct ops (m_tabulate db) (m_table_min db)
                             (m_table_max db) (m_table_del db))))\<rparr>)"
    using group_miss [OF t nd assms(5) rng, of ops] by (simp add: len)
  then show ?thesis using t k rng by blast
qed

text \<open>The name \<open>ii\<close> on the example database.\<close>

theorem two_letter_name_accepted_witness:
  "groupType ''ii'' = Inr II
   \<and> substr ''ii'' 0 (length_minus_2 ''ii'') = Inr []
   \<and> group False linear_ops example_thermo example_db ''ii''
       = Inr (''ii'', example_db\<lparr>m_groups := [''ii'' \<mapsto>
              \<lparr> lg_members = [CollisionPairNew ''N'' ''N'', CollisionPairNew ''O'' ''O''],
                lg_kind = [], lg_values = [1000, 1000] \<rparr>]\<rparr>)"
proof -
  have wf: "nElectrons example_thermo \<le> nSpecies example_thermo"
    by (simp add: example_counts)
  have i: "''ii'' \<in> {''ee'', ''ei'', ''ii'', ''ij''}" by simp
  have n: "m_groups example_db ''ii'' = None" by (simp add: example_settings)
  have ty: "II = (if ''ii'' = ''ee'' then EE else if ''ii'' = ''ei'' then EI
                 else if ''ii'' = ''ii'' then II else IJ)" by simp
  note inst = two_letter_name_accepted [OF i example_db_constructed refl wf n ty,
      where ops = linear_ops and ndebug = False]
  have sw: "group_switch II ''ii'' (m_pairs example_db) (nSpecies example_thermo)
              (nElectrons example_thermo)
            = Inr (InDiag [CollisionPairNew ''N'' ''N'', CollisionPairNew ''O'' ''O''])"
    by (simp add: group_switch_def example_counts example_pairs fault_bind_def
        diag_loop.simps numeral_3_eq_3)
  show ?thesis
    using inst
    by (auto simp add: sw linear_ops_def example_settings group_temperature_def example_fields)
qed

section \<open>The heavy viscosity numerator\<close>

lemma group_frame:
  assumes "group ndebug ops thermo db name = Inr (ref, db')"
  shows "ref = name" and "m_etafac db' = m_etafac db" and "m_pairs db' = m_pairs db"
proof -
  obtain type where t: "groupType name = Inr type"
    using assms by (cases "groupType name") (simp_all add: group_def fault_bind_def)
  have "\<exists>g. ref = name \<and> db' = db\<lparr>m_groups := (m_groups db)(name \<mapsto> g)\<rparr>"
    using assms t
    by (auto simp add: group_def fault_bind_def Let_def split: option.splits sum.splits if_splits)
  then show "ref = name" and "m_etafac db' = m_etafac db" and "m_pairs db' = m_pairs db"
    by auto
qed

lemma map2_nth:
  assumes "length xs = n" and "length ys = n"
  shows "map2 f xs ys = map (\<lambda>i. f (xs ! i) (ys ! i)) [0..<n]"
  using assms by (simp add: list_eq_iff_nth_eq)

text \<open>
  C6. \<^verbatim>\<open>etai()\<close> returns, for each heavy species \<open>i\<close>, the value
  \<open>sqrt(T) * etaFactor[i] / Q22ii[i]\<close>, where \<open>T\<close> is the heavy temperature, \<open>etaFactor[i]\<close>
  is the factor \<open>(5/16) * sqrt(\<pi> * RU * M)\<close> that the constructor stored for the molar mass
  \<open>M\<close> of the \<open>i\<close>-th heavy species (species \<open>e + i\<close> of the mixture), and \<open>Q22ii\<close> is the array
  of values of the group that \<^verbatim>\<open>group("Q22ii")\<close> returns, which has one value for each
  heavy species. The arithmetic is that of the real numbers.
\<close>

theorem etai_formula:
  fixes thermo :: "'sp Thermodynamics" and db0 db :: "('sp, 'g) CollisionDB"
  assumes "CollisionDBNew rnd attrs RU thermo = Inr db0"
    and "m_etafac db = m_etafac db0"
    and "group ndebug ops thermo db ''Q22ii'' = Inr (ref, db1)"
    and "m_groups db1 ref = Some g"
    and "length (grp_array ops g) = nHeavy thermo"
    and "etaFactor = (\<lambda>i. 5 / 16 * sqrt (pi * RU * speciesMw thermo (nElectrons thermo + i)))"
    and "result = map (\<lambda>i. sqrt (thermo_T thermo) * etaFactor i / grp_array ops g ! i)
                    [0..<nHeavy thermo]"
  shows "(\<forall>i < nHeavy thermo. m_etafac db ! i = etaFactor i)
       \<and> Q22ii ndebug ops thermo db = Inr (grp_array ops g, db1)
       \<and> etai ndebug ops thermo db = Inr (result, db1\<lparr>m_etai := result\<rparr>)"
proof -
  have len: "length (m_etafac db) = nHeavy thermo"
    unfolding assms(2) by (rule CollisionDBNew_Inr(3) [OF assms(1)])
  have val: "\<forall>i < nHeavy thermo. m_etafac db ! i = etaFactor i"
    unfolding assms(2,6) by (rule CollisionDBNew_Inr(4) [OF assms(1)])
  have f: "m_etafac db1 = m_etafac db"
    by (rule group_frame(2) [OF assms(3)])
  have q: "Q22ii ndebug ops thermo db = Inr (grp_array ops g, db1)"
    by (simp add: Q22ii_def fault_bind_def assms(3,4))
  have "map2 (\<lambda>f x. sqrt (thermo_T thermo) * f / x) (m_etafac db1) (grp_array ops g)
          = map (\<lambda>i. sqrt (thermo_T thermo) * m_etafac db1 ! i / grp_array ops g ! i)
              [0..<nHeavy thermo]"
    by (rule map2_nth) (simp_all add: f len assms(5))
  also have "\<dots> = result"
    unfolding assms(7) using val by (simp add: f)
  finally have m: "map2 (\<lambda>f x. sqrt (thermo_T thermo) * f / x) (m_etafac db1) (grp_array ops g)
          = result" .
  have "etai ndebug ops thermo db =
          (if length (grp_array ops g) = length (m_etafac db1)
           then let v = map2 (\<lambda>f x. sqrt (thermo_T thermo) * f / x) (m_etafac db1) (grp_array ops g)
                in Inr (v, db1\<lparr>m_etai := v\<rparr>)
           else Inl SizeMismatch)"
    by (simp only: etai_def q fault_bind_def sum.case prod.case)
  also have "\<dots> = Inr (result, db1\<lparr>m_etai := result\<rparr>)"
    by (simp only: Let_def m) (simp add: f len assms(5))
  finally show ?thesis using val q by (intro conjI)
qed

text \<open>
  In the example mixture at the heavy temperature 1000, with \<open>Q22ii = [1000, 1000]\<close>.
\<close>

theorem etai_formula_witness:
  "\<exists>db'. etai False linear_ops example_thermo example_db
      = Inr ([sqrt 1000 * (5 / 16 * sqrt (pi * (8314 / 1000) * (14 / 1000))) / 1000,
              sqrt 1000 * (5 / 16 * sqrt (pi * (8314 / 1000) * (16 / 1000))) / 1000], db')"
proof -
  let ?g = "\<lparr> lg_members = [CollisionPairNew ''N'' ''N'', CollisionPairNew ''O'' ''O''],
                lg_kind = ''Q22'', lg_values = [1000, 1000] \<rparr>"
  let ?db1 = "example_db\<lparr>m_groups := [''Q22ii'' \<mapsto> ?g]\<rparr>"
  have t: "groupType ''Q22ii'' = Inr II"
    by (simp add: groupType_def string_at_def fault_bind_def)
  have nd: "False \<or> II \<noteq> BAD_TYPE" by simp
  have n: "m_groups example_db ''Q22ii'' = None" by (simp add: example_settings)
  have sw: "group_switch II ''Q22ii'' (m_pairs example_db) (nSpecies example_thermo)
              (nElectrons example_thermo)
            = Inr (InDiag [CollisionPairNew ''N'' ''N'', CollisionPairNew ''O'' ''O''])"
    by (simp add: group_switch_def example_counts example_pairs fault_bind_def
        diag_loop.simps numeral_3_eq_3)
  have g: "group False linear_ops example_thermo example_db ''Q22ii'' = Inr (''Q22ii'', ?db1)"
    using group_miss [OF t nd n sw, of linear_ops]
    by (simp add: linear_ops_def example_settings group_temperature_def example_fields)
  have e: "m_groups ?db1 ''Q22ii'' = Some ?g" by simp
  have h: "nHeavy example_thermo = 2" by (simp add: nHeavy_def example_counts)
  have l: "length (grp_array linear_ops ?g) = nHeavy example_thermo"
    by (simp add: linear_ops_def h)
  have u: "[0..<2] = [0, Suc 0]" by (simp add: numeral_2_eq_2)
  have mw: "speciesMw example_thermo (Suc 0) = 14 / 1000"
    "speciesMw example_thermo (Suc (Suc 0)) = 16 / 1000"
    by (simp_all add: example_thermo_def)
  show ?thesis
    using etai_formula [OF example_db_constructed refl g e l refl refl]
    by (simp add: h u example_counts example_fields linear_ops_def mw)
qed

section \<open>The effective diffusion coefficients\<close>

text \<open>
  C8. \<^verbatim>\<open>Dim()\<close> returns an array of \<open>nSpecies\<close> zeros, whatever the temperatures, the
  species data and the state of the database are, and stores the same array in
  \<^verbatim>\<open>m_Dim\<close>.
\<close>

theorem Dim_returns_zero_array:
  "fst (Dim thermo db) = replicate (nSpecies thermo) 0
   \<and> length (fst (Dim thermo db)) = length (species thermo)
   \<and> snd (Dim thermo db) = db\<lparr>m_Dim := replicate (nSpecies thermo) 0\<rparr>"
  by (simp add: Dim_def nSpecies_def Let_def)


end
